theory Spec2Isabelle
  imports Main "HOL-Library.Sublist" "HOL-Library.Multiset" "HOL-Library.AList"
begin

section \<open>The API resource collector of the compliance operator\<close>

text \<open>
  A shallow embedding of the resource fetcher for OpenSCAP content
  (\<^verbatim>\<open>scapContentDataStream\<close>): discovery of the resource paths a profile needs
  (\<^verbatim>\<open>FigureResources\<close>), the fetch loop with its per-path error policy and filter
  (\<^verbatim>\<open>fetch\<close>, \<^verbatim>\<open>filter\<close>), the reconciliation of the kubelet configurations of
  the nodes of a role (\<^verbatim>\<open>saveConsistentKubeletResult\<close>) and the file layout of the
  saved results (\<^verbatim>\<open>getSaveDirectoryAndFileName\<close>).

  Go strings and byte slices are \<^typ>\<open>string\<close>. A Go map is a HOL map; where the result
  of a \<^verbatim>\<open>range\<close> over a map depends on the order in which the keys are visited, the
  order is an explicit argument of the model (Go leaves it unspecified and varies it
  from run to run).
\<close>

subsection \<open>Constants\<close>

definition valuePrefix :: string where
  "valuePrefix = ''xccdf_org.ssgproject.content_value_''"

definition kubeletConfigPathPrefix :: string where
  "kubeletConfigPathPrefix = ''/kubeletconfig/''"

definition kubeletConfigRolePathPrefix :: string where
  "kubeletConfigRolePathPrefix = ''/kubeletconfig/role/''"

subsection \<open>Errors\<close>

text \<open>
  The error of the API server as the code looks at it: through
  \<^verbatim>\<open>meta.IsNoMatchError\<close>, \<^verbatim>\<open>kerrors.IsForbidden\<close>, \<^verbatim>\<open>kerrors.IsNotFound\<close>,
  \<^verbatim>\<open>kerrors.ReasonForError\<close> and its text \<^verbatim>\<open>err.Error()\<close>.
\<close>

record kerror =
  IsNoMatchError :: bool
  IsForbidden :: bool
  IsNotFound :: bool
  ReasonForError :: string
  ErrorText :: string

text \<open>The errors \<^verbatim>\<open>filter\<close> returns, one constructor for each return site.\<close>

datatype filter_error =
    CouldNotCreateFilter string string
  | ErrorUnmarshalling string
  | CouldntGetFilteredObject
  | FilterResultError string
  | ErrorMarshalling string
  | SkippingExtraResults string

text \<open>The errors of the collector, one constructor for each place that makes one.\<close>

datatype error =
    FailedToListNodes string
  | StreamingURIsFailed kerror
  | ReadAllFailed string
  | CouldntFilter string filter_error
  | CouldntCompareKubeletConfigs string string
  | CouldntGetIntersection string string
  | BadObjectPath string

subsection \<open>Strings and paths of the Go library\<close>

text \<open>\<^verbatim>\<open>strings.Split(s, "/")\<close>: the pieces between the slashes; one empty piece for
  the empty string.\<close>

fun splitSlash :: "string \<Rightarrow> string list" where
  "splitSlash [] = ['''']"
| "splitSlash (c # cs) =
     (if c = CHR ''/'' then [] # splitSlash cs
      else (case splitSlash cs of [] \<Rightarrow> [c # ''''] | x # xs \<Rightarrow> (c # x) # xs))"

fun joinSlash :: "string list \<Rightarrow> string" where
  "joinSlash [] = []"
| "joinSlash [x] = x"
| "joinSlash (x # y # zs) = x @ ''/'' @ joinSlash (y # zs)"









subsection \<open>Resource paths\<close>

record ResourcePath =
  ObjPath :: string
  DumpPath :: string
  Filter :: string

text \<open>The role and the node of a DumpPath such as \<^verbatim>\<open>/kubeletconfig/master/node-1\<close>;
  two empty strings for any other path.\<close>

definition getRoleNodeNameFromDumpPath :: "string \<Rightarrow> string \<times> string" where
  "getRoleNodeNameFromDumpPath dumpPath =
     (if prefix kubeletConfigPathPrefix dumpPath then
        (let dumpPathSplit = splitSlash dumpPath in
         if length dumpPathSplit \<noteq> 4 then ('''', '''')
         else (dumpPathSplit ! 2, dumpPathSplit ! 3))
      else ('''', ''''))"

subsection \<open>Documents\<close>

text \<open>
  A parsed document is a tree of elements and text. An element has its qualified name
  (\<^verbatim>\<open>xccdf-1.2:Profile\<close>), its attributes in the order of the source, and its
  children.
\<close>

datatype xnode = Element string "(string \<times> string) list" "xnode list" | Text string

text \<open>The nodes below a node, in document order.\<close>

fun descendants :: "xnode \<Rightarrow> xnode list" where
  "descendants (Element name attr kids) = concat (map (\<lambda>kid. kid # descendants kid) kids)"
| "descendants (Text t) = []"

fun isElementNamed :: "string \<Rightarrow> xnode \<Rightarrow> bool" where
  "isElementNamed name (Element name' attr kids) = (name' = name)"
| "isElementNamed name (Text t) = False"

text \<open>\<^verbatim>\<open>n.SelectElements("//name")\<close> and \<^verbatim>\<open>xmlquery.Find(n, "//name")\<close>: the path
  is evaluated with \<open>n\<close> as the root, and selects the elements of that name below \<open>n\<close>
  in document order.\<close>

definition selectElements :: "xnode \<Rightarrow> string \<Rightarrow> xnode list" where
  "selectElements n name = filter (isElementNamed name) (descendants n)"

text \<open>\<^verbatim>\<open>n.SelectAttr(name)\<close>: the value of the first attribute of that name, the empty
  string when there is none.\<close>

fun selectAttr :: "xnode \<Rightarrow> string \<Rightarrow> string" where
  "selectAttr (Element name' attr kids) name =
     (case map_of attr name of None \<Rightarrow> '''' | Some v \<Rightarrow> v)"
| "selectAttr (Text t) name = ''''"

text \<open>
  Functions of other packages that the discovery calls, as arguments of the model:
  \<^verbatim>\<open>n.OutputXML(false)\<close>, \<^verbatim>\<open>html.UnescapeString\<close>, \<^verbatim>\<open>utils.GetPathFromWarningXML\<close>
  (the paths and the error) and \<^verbatim>\<open>utils.GetNodeRoles\<close> on the labels of a node.
\<close>

record extlib =
  OutputXML :: "xnode \<Rightarrow> string"
  UnescapeString :: "string \<Rightarrow> string"
  GetPathFromWarningXML :: "xnode \<Rightarrow> (string \<rightharpoonup> string) \<Rightarrow> ResourcePath list \<times> string option"
  GetNodeRoles :: "(string \<times> string) list \<Rightarrow> string list"

subsection \<open>The nodes of the cluster and their roles\<close>

record node =
  Name :: string
  Labels :: "(string \<times> string) list"

text \<open>The body of the loop over the nodes: the name of the node is appended to the
  list of each of its roles.\<close>

definition addNodeRoles :: "extlib \<Rightarrow> node \<Rightarrow> (string \<rightharpoonup> string list) \<Rightarrow> (string \<rightharpoonup> string list)" where
  "addNodeRoles lib node roleNodesList =
     fold (\<lambda>role m. m(role \<mapsto> (case m role of None \<Rightarrow> [] | Some nodes \<Rightarrow> nodes) @ [Name node]))
       (GetNodeRoles lib (Labels node)) roleNodesList"

text \<open>\<open>listing\<close> is what \<^verbatim>\<open>c.List\<close> returns: an error or the nodes.\<close>

definition fetchNodesWithRole :: "extlib \<Rightarrow> string + node list \<Rightarrow> error + (string \<rightharpoonup> string list)" where
  "fetchNodesWithRole lib listing =
     (case listing of
        Inl err \<Rightarrow> Inl (FailedToListNodes err)
      | Inr items \<Rightarrow> Inr (fold (addNodeRoles lib) items Map.empty))"

definition kubeletConfigFilter :: string where
  "kubeletConfigFilter =
     ''.kubeletconfig|.kind='' @ [CHR 0x22] @ ''KubeletConfiguration'' @ [CHR 0x22] @
     ''|.apiVersion='' @ [CHR 0x22] @ ''kubelet.config.k8s.io/v1beta1'' @ [CHR 0x22]"

definition kubeletConfigResourcePath :: "string \<Rightarrow> string \<Rightarrow> ResourcePath" where
  "kubeletConfigResourcePath role node =
     \<lparr>ObjPath = ''/api/v1/nodes/'' @ node @ ''/proxy/configz'',
      DumpPath = kubeletConfigPathPrefix @ role @ ''/'' @ node,
      Filter = kubeletConfigFilter\<rparr>"

text \<open>\<open>roleOrder\<close> lists the keys of \<open>roleNodesList\<close> in the order in which
  \<^verbatim>\<open>range roleNodesList\<close> visits them in this run.\<close>

definition getKubeletConfigResourcePath ::
  "string list \<Rightarrow> (string \<rightharpoonup> string list) \<Rightarrow> ResourcePath list" where
  "getKubeletConfigResourcePath roleOrder roleNodesList =
     concat (map (\<lambda>role.
        case roleNodesList role of
          None \<Rightarrow> []
        | Some nodeList \<Rightarrow> map (kubeletConfigResourcePath role) nodeList) roleOrder)"

subsection \<open>The variables and the selected checks of a profile\<close>

definition registerValue :: "extlib \<Rightarrow> xnode \<Rightarrow> xnode \<Rightarrow> (string \<rightharpoonup> string) \<Rightarrow> (string \<rightharpoonup> string)" where
  "registerValue lib variable val valuesList =
     (if selectAttr val ''hidden'' = ''true'' then valuesList
      else if selectAttr val ''selector'' = '''' then
        (if prefix valuePrefix (selectAttr variable ''id'')
         then valuesList(drop (length valuePrefix) (selectAttr variable ''id'') \<mapsto>
                UnescapeString lib (OutputXML lib val))
         else valuesList)
      else valuesList)"

definition registerSetValue :: "extlib \<Rightarrow> xnode \<Rightarrow> (string \<rightharpoonup> string) \<Rightarrow> (string \<rightharpoonup> string)" where
  "registerSetValue lib variable valuesList =
     (if prefix valuePrefix (selectAttr variable ''idref'')
      then valuesList(drop (length valuePrefix) (selectAttr variable ''idref'') \<mapsto>
             UnescapeString lib (OutputXML lib variable))
      else valuesList)"

text \<open>The variables of one document: the default values, then the \<^verbatim>\<open>set-value\<close>
  elements.\<close>

definition collectValues :: "extlib \<Rightarrow> xnode \<Rightarrow> (string \<rightharpoonup> string) \<Rightarrow> (string \<rightharpoonup> string)" where
  "collectValues lib defn valuesList =
     (let allValues = selectElements defn ''xccdf-1.2:Value'';
          valuesList1 =
            fold (\<lambda>variable. fold (registerValue lib variable)
                    (selectElements variable ''xccdf-1.2:value''))
              allValues valuesList;
          allSetValues = selectElements defn ''xccdf-1.2:set-value''
      in fold (registerSetValue lib) allSetValues valuesList1)"

text \<open>
  The loop over \<^verbatim>\<open>overrideValueList\<close>, for the order \<open>order\<close> in which \<^verbatim>\<open>range\<close>
  visits its keys: a key that \<^verbatim>\<open>valuesList\<close> has gets the value of the override, a
  key that it has not is left out.
\<close>

definition overrideStep ::
  "(string \<rightharpoonup> string) \<Rightarrow> string \<Rightarrow> (string \<rightharpoonup> string) \<Rightarrow> (string \<rightharpoonup> string)" where
  "overrideStep overrides k valuesList =
     (case overrides k of
        None \<Rightarrow> valuesList
      | Some v \<Rightarrow> if valuesList k \<noteq> None then valuesList(k \<mapsto> v) else valuesList)"

definition overrideLoop ::
  "(string \<rightharpoonup> string) \<Rightarrow> string list \<Rightarrow> (string \<rightharpoonup> string) \<Rightarrow> (string \<rightharpoonup> string)" where
  "overrideLoop overrides order valuesList = fold (overrideStep overrides) order valuesList"

text \<open>
  The iteration for the key \<open>k\<close> reads and writes \<^verbatim>\<open>valuesList[k]\<close> only, so the loop
  is the same update of each key in whatever order the keys are visited
  (\<open>overrideLoop_any_order\<close> below). \<open>getResourcePaths\<close> is modelled with this update;
  \<open>None\<close> is the \<^verbatim>\<open>nil\<close> map, over which the loop does not run.
\<close>

definition overrideValues ::
  "(string \<rightharpoonup> string) option \<Rightarrow> (string \<rightharpoonup> string) \<Rightarrow> (string \<rightharpoonup> string)" where
  "overrideValues overrideValueList valuesList =
     (case overrideValueList of
        None \<Rightarrow> valuesList
      | Some overrides \<Rightarrow>
          (\<lambda>k. case overrides k of
                 None \<Rightarrow> valuesList k
               | Some v \<Rightarrow> if valuesList k \<noteq> None then Some v else valuesList k))"

definition selectedChecks :: "xnode \<Rightarrow> string \<Rightarrow> string list" where
  "selectedChecks profileDefs profile =
     concat (map (\<lambda>node.
        if selectAttr node ''id'' \<noteq> profile then []
        else map (\<lambda>check. selectAttr check ''idref'')
               (filter (\<lambda>check. selectAttr check ''selected'' = ''true'' \<and>
                                 selectAttr check ''idref'' \<noteq> '''')
                  (selectElements node ''xccdf-1.2:select'')))
       (selectElements profileDefs ''xccdf-1.2:Profile''))"

definition getPathFromWarningXML :: "extlib \<Rightarrow> xnode \<Rightarrow> (string \<rightharpoonup> string) \<Rightarrow> ResourcePath list" where
  "getPathFromWarningXML lib warn valueList = fst (GetPathFromWarningXML lib warn valueList)"

text \<open>The paths of the first warning of a rule that has any.\<close>

fun firstWarningPaths :: "extlib \<Rightarrow> (string \<rightharpoonup> string) \<Rightarrow> xnode list \<Rightarrow> ResourcePath list" where
  "firstWarningPaths lib valuesList [] = []"
| "firstWarningPaths lib valuesList (warn # warningObjs) =
     (let apiPaths = getPathFromWarningXML lib warn valuesList in
      if apiPaths = [] then firstWarningPaths lib valuesList warningObjs
      else apiPaths)"

definition checkPaths ::
  "extlib \<Rightarrow> (string \<rightharpoonup> string) \<Rightarrow> xnode list \<Rightarrow> string \<Rightarrow> ResourcePath list" where
  "checkPaths lib valuesList checkDefinitions checkID =
     (case find (\<lambda>rule. selectAttr rule ''id'' = checkID) checkDefinitions of
        None \<Rightarrow> []
      | Some found \<Rightarrow>
          firstWarningPaths lib valuesList (selectElements found ''xccdf-1.2:warning''))"

definition getResourcePaths ::
  "extlib \<Rightarrow> xnode \<Rightarrow> xnode \<Rightarrow> string \<Rightarrow> (string \<rightharpoonup> string) option \<Rightarrow>
     ResourcePath list \<times> (string \<rightharpoonup> string)" where
  "getResourcePaths lib profileDefs ruleDefs profile overrideValueList =
     (let valuesList =
            overrideValues overrideValueList
              (collectValues lib profileDefs (collectValues lib ruleDefs Map.empty));
          selected = selectedChecks profileDefs profile;
          checkDefinitions = selectElements ruleDefs ''xccdf-1.2:Rule''
      in if checkDefinitions = [] then ([], valuesList)
         else (concat (map (checkPaths lib valuesList checkDefinitions) selected), valuesList))"

fun firstExtends :: "string \<Rightarrow> xnode list \<Rightarrow> string" where
  "firstExtends tailoredProfile [] = ''''"
| "firstExtends tailoredProfile (node # nodes) =
     (if selectAttr node ''id'' \<noteq> tailoredProfile then firstExtends tailoredProfile nodes
      else
        let profileID = selectAttr node ''extends'' in
        if profileID \<noteq> '''' then profileID else firstExtends tailoredProfile nodes)"

definition getExtendedProfileFromTailoring :: "xnode \<Rightarrow> string \<Rightarrow> string" where
  "getExtendedProfileFromTailoring ds tailoredProfile =
     firstExtends tailoredProfile (selectElements ds ''xccdf-1.2:Profile'')"

subsection \<open>Discovery\<close>

text \<open>The staging object, after \<^verbatim>\<open>LoadSource\<close> (and \<^verbatim>\<open>LoadTailoring\<close>, when there is a
  tailoring) has run: the benchmark, the tailoring or \<^verbatim>\<open>nil\<close>, and the resources.\<close>

record scapContentDataStream =
  dataStream :: xnode
  tailoring :: "xnode option"
  resources :: "ResourcePath list"

definition samePath :: "string \<Rightarrow> ResourcePath" where
  "samePath p = \<lparr>ObjPath = p, DumpPath = p, Filter = ''''\<rparr>"

definition mustFetch :: "ResourcePath list" where
  "mustFetch =
     [samePath ''/version'',
      samePath ''/apis/config.openshift.io/v1/clusteroperators/openshift-apiserver'',
      samePath ''/apis/config.openshift.io/v1/infrastructures/cluster'',
      samePath ''/apis/config.openshift.io/v1/networks/cluster'',
      samePath ''/api/v1/nodes'']"

text \<open>
  \<open>listing\<close> is the outcome of listing the nodes and \<open>roleOrder\<close> the order in which
  \<^verbatim>\<open>getKubeletConfigResourcePath\<close> visits the roles; it has all the keys of
  \<^verbatim>\<open>roleNodesList\<close>, so that \<^verbatim>\<open>len(roleNodesList) > 0\<close> is \<open>roleOrder \<noteq> []\<close>. The
  result is the error, or the staging object with its resources set.
\<close>

definition FigureResources ::
  "extlib \<Rightarrow> string list \<Rightarrow> string + node list \<Rightarrow> scapContentDataStream \<Rightarrow> string \<Rightarrow>
     error + scapContentDataStream" where
  "FigureResources lib roleOrder listing c profile =
     (case fetchNodesWithRole lib listing of
        Inl err \<Rightarrow> Inl err
      | Inr roleNodesList \<Rightarrow>
          let found =
                (if roleOrder \<noteq> []
                 then mustFetch @ getKubeletConfigResourcePath roleOrder roleNodesList
                 else mustFetch)
          in
          case tailoring c of
            Some tailored \<Rightarrow>
              (case getResourcePaths lib tailored (dataStream c) profile None of
                 (selected, valuesList) \<Rightarrow>
                   let found1 = found @ selected;
                       effectiveProfile = getExtendedProfileFromTailoring tailored profile
                   in if effectiveProfile = '''' then Inr (c\<lparr>resources := found1\<rparr>)
                      else
                        (case getResourcePaths lib (dataStream c) (dataStream c)
                                effectiveProfile (Some valuesList) of
                           (selected2, unused) \<Rightarrow> Inr (c\<lparr>resources := found1 @ selected2\<rparr>)))
          | None \<Rightarrow>
              (case getResourcePaths lib (dataStream c) (dataStream c) profile None of
                 (selected, unused) \<Rightarrow> Inr (c\<lparr>resources := found @ selected\<rparr>)))"

subsection \<open>Reconciling the kubelet configurations of a role\<close>

text \<open>
  The two functions of other packages that \<^verbatim>\<open>saveConsistentKubeletResult\<close> calls are
  arguments of the model. \<^verbatim>\<open>jsondiff.CompareJSON\<close> returns an error, or the patch from
  the first document to the second: \<open>None\<close> is the nil patch of two documents that do
  not differ, \<open>Some d\<close> a patch that prints as \<open>d\<close>. \<^verbatim>\<open>utils.JSONIntersection\<close>
  returns an error or a document. The function hands the contents it finds in the
  result map to these two and does nothing else with them, so its model is polymorphic
  in the type \<open>'b\<close> of the contents; \<^verbatim>\<open>fetch\<close> uses it on byte strings.
\<close>

record 'b jsonlib =
  CompareJSON :: "'b \<Rightarrow> 'b \<Rightarrow> string + string option"
  JSONIntersection :: "'b \<Rightarrow> 'b \<Rightarrow> string + 'b"

definition inconsistentWarning :: "string \<Rightarrow> string \<Rightarrow> string \<Rightarrow> string" where
  "inconsistentWarning node role diff =
     ''Kubelet configs for '' @ node @ '' are not consistent with role '' @ role @
     '', Diff: '' @ diff @ '' of KubeletConfigs for '' @ role @ '' role will not be saved.''"

text \<open>
  The first loop: \<open>order\<close> lists the keys of \<open>result\<close> in the order in which
  \<^verbatim>\<open>range result\<close> visits them in this run. \<^verbatim>\<open>kubeletConfigsRole\<close>, a map the function
  makes itself, is an association list with one entry for each role.
\<close>

fun foldKubeletConfigs ::
  "'b jsonlib \<Rightarrow> (string \<rightharpoonup> 'b) \<Rightarrow> string list \<Rightarrow> (string \<times> 'b) list \<times> string list \<Rightarrow>
     error + ((string \<times> 'b) list \<times> string list)" where
  "foldKubeletConfigs lib result [] st = Inr st"
| "foldKubeletConfigs lib result (dumpPath # rest) (kubeletConfigsRole, warning) =
     (case result dumpPath of
        None \<Rightarrow> foldKubeletConfigs lib result rest (kubeletConfigsRole, warning)
      | Some content \<Rightarrow>
          (let (role, node) = getRoleNodeNameFromDumpPath dumpPath in
           if role = '''' then foldKubeletConfigs lib result rest (kubeletConfigsRole, warning)
           else
             (case map_of kubeletConfigsRole role of
                Some existingKC \<Rightarrow>
                  (case CompareJSON lib existingKC content of
                     Inl err \<Rightarrow> Inl (CouldntCompareKubeletConfigs err node)
                   | Inr None \<Rightarrow>
                       foldKubeletConfigs lib result rest (kubeletConfigsRole, warning)
                   | Inr (Some diff) \<Rightarrow>
                       (case JSONIntersection lib existingKC content of
                          Inl err \<Rightarrow> Inl (CouldntGetIntersection err node)
                        | Inr intersectionKC \<Rightarrow>
                            foldKubeletConfigs lib result rest
                              (AList.update role intersectionKC kubeletConfigsRole,
                               warning @ [inconsistentWarning node role diff])))
              | None \<Rightarrow>
                  foldKubeletConfigs lib result rest
                    (AList.update role content kubeletConfigsRole, warning))))"

text \<open>The second loop stores each role's configuration at its role-level key. The
  roles are distinct, so the iterations write different keys and the order of this
  \<^verbatim>\<open>range\<close> does not show in the result (\<open>fold_storeRoleConfig_any_order\<close> below).\<close>

definition storeRoleConfig :: "string \<times> 'b \<Rightarrow> (string \<rightharpoonup> 'b) \<Rightarrow> (string \<rightharpoonup> 'b)" where
  "storeRoleConfig rc result =
     (case rc of (role, content) \<Rightarrow>
        if role = '''' then result
        else result(kubeletConfigRolePathPrefix @ role \<mapsto> content))"

definition saveConsistentKubeletResult ::
  "'b jsonlib \<Rightarrow> string list \<Rightarrow> (string \<rightharpoonup> 'b) \<Rightarrow> string list \<Rightarrow>
     error + ((string \<rightharpoonup> 'b) \<times> string list)" where
  "saveConsistentKubeletResult lib order result warning =
     (if order = [] then Inr (result, warning)
      else
        (case foldKubeletConfigs lib result order ([], warning) of
           Inl err \<Rightarrow> Inl err
         | Inr (kubeletConfigsRole, warning') \<Rightarrow>
             Inr (fold storeRoleConfig kubeletConfigsRole result, warning')))"

subsection \<open>Reconciliation as the specification words it\<close>

text \<open>
  These definitions follow the specification, for the comparison with
  \<^verbatim>\<open>saveConsistentKubeletResult\<close>. The node-level entries of a role, in the order in
  which they are visited, as pairs of the node and its content; and the roles that have
  such an entry.
\<close>

definition roleEntries :: "string \<Rightarrow> (string \<rightharpoonup> 'b) \<Rightarrow> string list \<Rightarrow> (string \<times> 'b) list" where
  "roleEntries role result order =
     List.map_filter
       (\<lambda>dumpPath.
          case result dumpPath of
            None \<Rightarrow> None
          | Some content \<Rightarrow>
              if fst (getRoleNodeNameFromDumpPath dumpPath) = role
              then Some (snd (getRoleNodeNameFromDumpPath dumpPath), content)
              else None)
       order"

definition foldedRoles :: "(string \<rightharpoonup> 'b) \<Rightarrow> string list \<Rightarrow> string list" where
  "foldedRoles result order =
     remdups (filter (\<lambda>role. role \<noteq> '''')
       (map (\<lambda>dumpPath. fst (getRoleNodeNameFromDumpPath dumpPath))
          (filter (\<lambda>dumpPath. result dumpPath \<noteq> None) order)))"

text \<open>
  The fold of the later entries of a role into the baseline: an entry that does not
  differ from the baseline leaves it; an entry that differs gives one warning that
  names its node and the role, and the intersection becomes the baseline. The result
  is the role's artifact and the warnings.
\<close>

fun reconcileRole ::
  "'b jsonlib \<Rightarrow> string \<Rightarrow> 'b \<Rightarrow> (string \<times> 'b) list \<Rightarrow> error + ('b \<times> string list)" where
  "reconcileRole lib role baseline [] = Inr (baseline, [])"
| "reconcileRole lib role baseline ((node, content) # later) =
     (case CompareJSON lib baseline content of
        Inl err \<Rightarrow> Inl (CouldntCompareKubeletConfigs err node)
      | Inr None \<Rightarrow> reconcileRole lib role baseline later
      | Inr (Some diff) \<Rightarrow>
          (case JSONIntersection lib baseline content of
             Inl err \<Rightarrow> Inl (CouldntGetIntersection err node)
           | Inr intersectionKC \<Rightarrow>
               (case reconcileRole lib role intersectionKC later of
                  Inl err \<Rightarrow> Inl err
                | Inr (artifact, ws) \<Rightarrow>
                    Inr (artifact, inconsistentWarning node role diff # ws))))"

text \<open>The first entry of a role is the baseline for the others; \<open>reconcileFrom\<close> starts
  from a baseline that may not be there yet.\<close>

fun reconcileFrom ::
  "'b jsonlib \<Rightarrow> string \<Rightarrow> 'b option \<Rightarrow> (string \<times> 'b) list \<Rightarrow>
     error + ('b option \<times> string list)" where
  "reconcileFrom lib role None [] = Inr (None, [])"
| "reconcileFrom lib role None ((node, content) # later) =
     (case reconcileRole lib role content later of
        Inl err \<Rightarrow> Inl err
      | Inr (artifact, ws) \<Rightarrow> Inr (Some artifact, ws))"
| "reconcileFrom lib role (Some baseline) entries =
     (case reconcileRole lib role baseline entries of
        Inl err \<Rightarrow> Inl err
      | Inr (artifact, ws) \<Rightarrow> Inr (Some artifact, ws))"

definition warningsFrom ::
  "'b jsonlib \<Rightarrow> string \<Rightarrow> 'b option \<Rightarrow> (string \<times> 'b) list \<Rightarrow> string list" where
  "warningsFrom lib role baseline entries =
     (case reconcileFrom lib role baseline entries of
        Inl err \<Rightarrow> []
      | Inr (artifact, ws) \<Rightarrow> ws)"

definition roleWarnings :: "'b jsonlib \<Rightarrow> string \<Rightarrow> (string \<rightharpoonup> 'b) \<Rightarrow> string list \<Rightarrow> string list" where
  "roleWarnings lib role result order =
     warningsFrom lib role None (roleEntries role result order)"

subsection \<open>Filtering a fetched object\<close>

text \<open>
  The JSON query library as \<^verbatim>\<open>filter\<close> uses it: \<^verbatim>\<open>gojq.Parse\<close> (an error or a
  query), \<^verbatim>\<open>json.Unmarshal\<close> into an object (an error or the object), the values the
  iterator of the query emits on the object, in order, each one a value or an error,
  and \<^verbatim>\<open>json.Marshal\<close> of a value (an error or its bytes).
\<close>

record ('q, 'o, 'v) jqlib =
  Parse :: "string \<Rightarrow> string + 'q"
  Unmarshal :: "string \<Rightarrow> string + 'o"
  Run :: "'q \<Rightarrow> 'o \<Rightarrow> (string + 'v) list"
  Marshal :: "'v \<Rightarrow> string + string"

definition MoreThanOneObjErr :: string where
  "MoreThanOneObjErr = ''more than one object returned from the filter''"

text \<open>The text of the error that wraps \<^verbatim>\<open>MoreThanOneObjErr\<close>.\<close>

definition skippingExtraResultsText :: "string \<Rightarrow> string" where
  "skippingExtraResultsText fltr =
     ''Skipping extra results from filter '' @ [CHR 0x27] @ fltr @ [CHR 0x27] @ '': '' @
     MoreThanOneObjErr"

text \<open>\<^verbatim>\<open>filter\<close> returns the bytes and the error; the bytes are empty where the code
  returns \<^verbatim>\<open>nil\<close>.\<close>

definition filter_jq ::
  "('q, 'o, 'v) jqlib \<Rightarrow> string \<Rightarrow> string \<Rightarrow> string \<times> filter_error option" where
  "filter_jq jq rawobj fltr =
     (case Parse jq fltr of
        Inl fltrErr \<Rightarrow> ('''', Some (CouldNotCreateFilter fltr fltrErr))
      | Inr q \<Rightarrow>
          (case Unmarshal jq rawobj of
             Inl unmarshallErr \<Rightarrow> ('''', Some (ErrorUnmarshalling unmarshallErr))
           | Inr obj \<Rightarrow>
               (case Run jq q obj of
                  [] \<Rightarrow> ('''', Some CouldntGetFilteredObject)
                | Inl err # _ \<Rightarrow> ('''', Some (FilterResultError err))
                | Inr v # others \<Rightarrow>
                    (case Marshal jq v of
                       Inl marshallErr \<Rightarrow> ('''', Some (ErrorMarshalling marshallErr))
                     | Inr out \<Rightarrow>
                         if others \<noteq> [] then (out, Some (SkippingExtraResults fltr))
                         else (out, None)))))"

subsection \<open>Fetching\<close>

text \<open>What streaming a URI gives: the error of \<^verbatim>\<open>Stream\<close>, the error of reading the
  stream, or the body.\<close>

datatype streamed = StreamError kerror | ReadError string | Body string

text \<open>The body of the loop of \<^verbatim>\<open>fetch\<close>, on the result map and the warnings.\<close>

definition fetchPath ::
  "(string \<Rightarrow> streamed) \<Rightarrow> ('q, 'o, 'v) jqlib \<Rightarrow> ResourcePath \<Rightarrow>
     (string \<rightharpoonup> string) \<times> string list \<Rightarrow> error + ((string \<rightharpoonup> string) \<times> string list)" where
  "fetchPath streamDispatcher jq rpath st =
     (case st of (results, warnings) \<Rightarrow>
      let uri = ObjPath rpath in
      case streamDispatcher uri of
        StreamError err \<Rightarrow>
          if IsNoMatchError err \<or> IsForbidden err \<or> IsNotFound err then
            (let warnings' = warnings @ [''could not fetch '' @ uri @ '': '' @ ErrorText err] in
             if IsNotFound err then
               Inr (results(DumpPath rpath \<mapsto> ''# kube-api-error='' @ ReasonForError err),
                    warnings')
             else Inr (results, warnings'))
          else Inl (StreamingURIsFailed err)
      | ReadError err \<Rightarrow> Inl (ReadAllFailed err)
      | Body body \<Rightarrow>
          if body = '''' then Inr (results, warnings)
          else if Filter rpath \<noteq> '''' then
            (case filter_jq jq body (Filter rpath) of
               (filteredBody, Some (SkippingExtraResults fltr)) \<Rightarrow>
                 Inr (results(DumpPath rpath \<mapsto> filteredBody),
                      warnings @ [skippingExtraResultsText fltr])
             | (filteredBody, Some filterErr) \<Rightarrow> Inl (CouldntFilter body filterErr)
             | (filteredBody, None) \<Rightarrow> Inr (results(DumpPath rpath \<mapsto> filteredBody), warnings))
          else Inr (results(DumpPath rpath \<mapsto> body), warnings))"

text \<open>The loop: an error ends it, and the warnings gathered so far are returned with
  the error.\<close>

fun fetchLoop ::
  "(string \<Rightarrow> streamed) \<Rightarrow> ('q, 'o, 'v) jqlib \<Rightarrow> ResourcePath list \<Rightarrow>
     (string \<rightharpoonup> string) \<times> string list \<Rightarrow>
     (string list \<times> error) + ((string \<rightharpoonup> string) \<times> string list)" where
  "fetchLoop streamDispatcher jq [] st = Inr st"
| "fetchLoop streamDispatcher jq (rpath # objects) st =
     (case fetchPath streamDispatcher jq rpath st of
        Inl err \<Rightarrow> Inl (snd st, err)
      | Inr st' \<Rightarrow> fetchLoop streamDispatcher jq objects st')"

text \<open>\<^verbatim>\<open>fetch\<close>: \<open>Inl (warnings, err)\<close> is the return without a result map, \<open>order\<close>
  the order in which \<^verbatim>\<open>saveConsistentKubeletResult\<close> visits the keys of the results.\<close>

definition fetch ::
  "(string \<Rightarrow> streamed) \<Rightarrow> ('q, 'o, 'v) jqlib \<Rightarrow> string jsonlib \<Rightarrow> string list \<Rightarrow>
     ResourcePath list \<Rightarrow> (string list \<times> error) + ((string \<rightharpoonup> string) \<times> string list)" where
  "fetch streamDispatcher jq lib order objects =
     (case fetchLoop streamDispatcher jq objects (Map.empty, []) of
        Inl we \<Rightarrow> Inl we
      | Inr (results, warnings) \<Rightarrow>
          (case saveConsistentKubeletResult lib order results warnings of
             Inl err \<Rightarrow> Inl ([], err)
           | Inr rw \<Rightarrow> Inr rw))"

subsection \<open>Saving: the directory and the file name of a result\<close>


subsection \<open>Inputs of the worked examples\<close>

text \<open>A small query library, a cluster that answers a few URIs, and errors of the API
  server, for the examples that follow the theorems.\<close>

definition exampleJq :: "(string, string, string) jqlib" where
  "exampleJq =
     \<lparr>Parse = (\<lambda>f. if f = ''?'' then Inl ''unexpected token'' else Inr f),
      Unmarshal = (\<lambda>b. Inr b),
      Run = (\<lambda>q obj. if q = ''.'' then [Inr obj]
                      else if q = ''.,.'' then [Inr obj, Inr obj]
                      else []),
      Marshal = (\<lambda>v. Inr v)\<rparr>"

definition exampleNotFound :: kerror where
  "exampleNotFound =
     \<lparr>IsNoMatchError = False, IsForbidden = False, IsNotFound = True,
      ReasonForError = ''NotFound'', ErrorText = ''the server could not find the requested resource''\<rparr>"

definition exampleInternalError :: kerror where
  "exampleInternalError =
     \<lparr>IsNoMatchError = False, IsForbidden = False, IsNotFound = False,
      ReasonForError = ''InternalError'', ErrorText = ''an error on the server''\<rparr>"

definition exampleCluster :: "string \<Rightarrow> streamed" where
  "exampleCluster uri =
     (if uri = ''/missing'' then StreamError exampleNotFound
      else if uri = ''/broken'' then StreamError exampleInternalError
      else if uri = ''/cut'' then ReadError ''unexpected EOF''
      else if uri = ''/empty'' then Body ''''
      else Body (''{'' @ uri @ ''}''))"

definition exampleJsonlib :: "string jsonlib" where
  "exampleJsonlib =
     \<lparr>CompareJSON = (\<lambda>a b. Inr (if a = b then None else Some ''differs'')),
      JSONIntersection = (\<lambda>a b. Inr ''{}'')\<rparr>"

definition examplePath :: "string \<Rightarrow> string \<Rightarrow> ResourcePath" where
  "examplePath uri fltr = \<lparr>ObjPath = uri, DumpPath = uri, Filter = fltr\<rparr>"

text \<open>Two nodes of the role \<^verbatim>\<open>worker\<close> whose kubelet configuration is asked for: the
  API server does not find that of \<^verbatim>\<open>w1\<close> and answers every other URI with one
  configuration. A query library that answers each query with the object itself. A
  JSON library that, as \<^verbatim>\<open>jsondiff.CompareJSON\<close> does, decodes both documents before it
  compares them and returns the error of the decoder on a document that is not JSON,
  here one that begins with \<^verbatim>\<open>#\<close>.\<close>

definition exampleKubeletCluster :: "string \<Rightarrow> streamed" where
  "exampleKubeletCluster uri =
     (if uri = ''/api/v1/nodes/w1/proxy/configz'' then StreamError exampleNotFound
      else Body ''{maxPods: 250}'')"

definition exampleKubeletJq :: "(string, string, string) jqlib" where
  "exampleKubeletJq =
     \<lparr>Parse = (\<lambda>f. Inr f), Unmarshal = (\<lambda>b. Inr b), Run = (\<lambda>q obj. [Inr obj]),
      Marshal = (\<lambda>v. Inr v)\<rparr>"

definition exampleDecodingJsonlib :: "string jsonlib" where
  "exampleDecodingJsonlib =
     \<lparr>CompareJSON = (\<lambda>a b.
        if prefix ''#'' a \<or> prefix ''#'' b
        then Inl ''invalid character # looking for beginning of value''
        else Inr (if a = b then None else Some ''differs'')),
      JSONIntersection = (\<lambda>a b.
        if prefix ''#'' a \<or> prefix ''#'' b
        then Inl ''invalid character # looking for beginning of value''
        else Inr ''{}'')\<rparr>"

text \<open>
  Modelled from the spec: \<^verbatim>\<open>utils.JSONIntersection\<close> is not among the sources (and
  \<^verbatim>\<open>jsondiff.CompareJSON\<close> is a library). For the worked examples of the
  reconciliation, on flat documents given as lists of members (name and value): two
  documents differ when one has a member that the other has not ("key/value
  comparison, order-insensitive"), and the patch is printed as the names of these
  members; the intersection keeps "only members present and equal in both".
\<close>

type_synonym document = "(string \<times> string) list"

definition differingMembers :: "document \<Rightarrow> document \<Rightarrow> string list" where
  "differingMembers a b =
     remdups (map fst (filter (\<lambda>m. m \<notin> set b) a @ filter (\<lambda>m. m \<notin> set a) b))"

definition exampleDocuments :: "document jsonlib" where
  "exampleDocuments =
     \<lparr>CompareJSON = (\<lambda>a b. Inr (if differingMembers a b = [] then None
                                  else Some (joinSlash (differingMembers a b)))),
      JSONIntersection = (\<lambda>a b. Inr (filter (\<lambda>m. m \<in> set b) a))\<rparr>"

text \<open>Three worker nodes: two report the configuration A, the third reports B, which
  differs from A in \<^verbatim>\<open>maxPods\<close> only.\<close>

definition exampleConfigA :: document where
  "exampleConfigA = [(''cgroupDriver'', ''systemd''), (''maxPods'', ''250'')]"

definition exampleConfigB :: document where
  "exampleConfigB = [(''cgroupDriver'', ''systemd''), (''maxPods'', ''110'')]"

definition exampleNodeConfigs :: "string \<rightharpoonup> document" where
  "exampleNodeConfigs =
     [''/kubeletconfig/worker/node-1'' \<mapsto> exampleConfigA,
      ''/kubeletconfig/worker/node-2'' \<mapsto> exampleConfigA,
      ''/kubeletconfig/worker/node-3'' \<mapsto> exampleConfigB]"

text \<open>A node with the name \<^verbatim>\<open>worker\<close> in a role with the name \<^verbatim>\<open>role\<close>, and a node
  of the role \<^verbatim>\<open>worker\<close>.\<close>

definition exampleCollision :: "string \<rightharpoonup> string" where
  "exampleCollision =
     [''/kubeletconfig/role/worker'' \<mapsto> ''{maxPods: 250}'',
      ''/kubeletconfig/worker/node-1'' \<mapsto> ''{maxPods: 110}'']"

text \<open>
  For the worked examples of the discovery: the text below a node stands for its
  serialisation, nothing is unescaped, the path of a warning is \<^verbatim>\<open>/api/v1/\<close> and the
  value of the variable that the warning names (the name itself when the table has no
  such variable), and the roles of a node are read off the label keys that begin with
  \<^verbatim>\<open>node-role.kubernetes.io/\<close>.
\<close>

fun textOf :: "xnode \<Rightarrow> string" where
  "textOf (Element name attr kids) = concat (map textOf kids)"
| "textOf (Text t) = t"

definition exampleLib :: extlib where
  "exampleLib =
     \<lparr>OutputXML = textOf,
      UnescapeString = (\<lambda>s. s),
      GetPathFromWarningXML = (\<lambda>warn valueList.
        ([samePath (''/api/v1/'' @
            (case valueList (textOf warn) of None \<Rightarrow> textOf warn | Some v \<Rightarrow> v))], None)),
      GetNodeRoles = (\<lambda>labels.
        map (drop 24) (filter (prefix ''node-role.kubernetes.io/'') (map fst labels)))\<rparr>"

text \<open>A benchmark with the variable A of value 1, the profile P that selects one rule,
  and the rule, whose warning names A.\<close>

definition exampleBenchmark :: xnode where
  "exampleBenchmark =
     Element ''xccdf-1.2:Benchmark'' []
       [Element ''xccdf-1.2:Value'' [(''id'', ''xccdf_org.ssgproject.content_value_A'')]
          [Element ''xccdf-1.2:value'' [] [Text ''1'']],
        Element ''xccdf-1.2:Profile'' [(''id'', ''P'')]
          [Element ''xccdf-1.2:select'' [(''idref'', ''rule_a''), (''selected'', ''true'')] []],
        Element ''xccdf-1.2:Rule'' [(''id'', ''rule_a'')]
          [Element ''xccdf-1.2:warning'' [] [Text ''A'']]]"

text \<open>A tailoring whose profile T extends P, selects nothing itself, and sets A to 2
  and B to 3.\<close>

definition exampleTailoring :: xnode where
  "exampleTailoring =
     Element ''xccdf-1.2:Tailoring'' []
       [Element ''xccdf-1.2:Profile'' [(''id'', ''T''), (''extends'', ''P'')]
          [Element ''xccdf-1.2:set-value'' [(''idref'', ''xccdf_org.ssgproject.content_value_A'')]
             [Text ''2''],
           Element ''xccdf-1.2:set-value'' [(''idref'', ''xccdf_org.ssgproject.content_value_B'')]
             [Text ''3'']]]"

definition exampleContent :: scapContentDataStream where
  "exampleContent =
     \<lparr>dataStream = exampleBenchmark, tailoring = Some exampleTailoring, resources = []\<rparr>"

text \<open>A cluster of a master and a worker.\<close>

definition exampleNodes :: "node list" where
  "exampleNodes =
     [\<lparr>Name = ''m1'', Labels = [(''node-role.kubernetes.io/master'', '''')]\<rparr>,
      \<lparr>Name = ''w1'', Labels = [(''kubernetes.io/os'', ''linux''),
                                (''node-role.kubernetes.io/worker'', '''')]\<rparr>]"

section \<open>Properties\<close>

lemmas example_defs = exampleJq_def exampleNotFound_def exampleInternalError_def exampleCluster_def
  exampleJsonlib_def examplePath_def differingMembers_def exampleDocuments_def exampleConfigA_def
  exampleConfigB_def exampleNodeConfigs_def exampleCollision_def exampleLib_def
  exampleBenchmark_def exampleTailoring_def exampleContent_def exampleNodes_def

lemmas kubelet_example_defs = exampleKubeletCluster_def exampleKubeletJq_def
  exampleDecodingJsonlib_def exampleNotFound_def


subsection \<open>The file layout of the saved results\<close>












subsection \<open>The fetch loop\<close>

lemma fetchLoop_append:
  "fetchLoop sd jq (pre @ post) st =
     (case fetchLoop sd jq pre st of Inl we \<Rightarrow> Inl we | Inr st' \<Rightarrow> fetchLoop sd jq post st')"
  by (induction pre arbitrary: st) (auto split: sum.splits)

lemma fetchLoop_abort:
  assumes "rp \<in> set objects" and "\<And>st. \<exists>e. fetchPath sd jq rp st = Inl e"
  shows "\<exists>we. fetchLoop sd jq objects st = Inl we"
  using assms(1)
proof (induction objects arbitrary: st)
  case Nil
  then show ?case by simp
next
  case (Cons a objects)
  show ?case
  proof (cases "fetchPath sd jq a st")
    case (Inl e)
    then show ?thesis by simp
  next
    case (Inr st')
    show ?thesis
    proof (cases "a = rp")
      case True
      with assms(2)[of st] Inr show ?thesis by simp
    next
      case False
      with Cons.prems have "rp \<in> set objects" by simp
      from Cons.IH[OF this, of st'] Inr show ?thesis by simp
    qed
  qed
qed

lemma fetch_abort:
  assumes "rp \<in> set objects" and "\<And>st. \<exists>e. fetchPath sd jq rp st = Inl e"
  shows "\<exists>we. fetch sd jq lib order objects = Inl we"
proof -
  from fetchLoop_abort[OF assms, of "(Map.empty, [])"]
  obtain we where "fetchLoop sd jq objects (Map.empty, []) = Inl we" by blast
  then show ?thesis by (simp add: fetch_def)
qed

lemma fetchPath_empty: "sd (ObjPath rpath) = Body '''' \<Longrightarrow> fetchPath sd jq rpath st = Inr st"
  by (cases st) (simp add: fetchPath_def)

lemma fetchPath_fatal:
  "sd (ObjPath rp) = StreamError e \<Longrightarrow> \<not> (IsNoMatchError e \<or> IsForbidden e \<or> IsNotFound e)
   \<Longrightarrow> fetchPath sd jq rp st = Inl (StreamingURIsFailed e)"
  by (cases st) (simp add: fetchPath_def)

lemma fetchPath_nonfatal:
  "sd (ObjPath rp) = StreamError e \<Longrightarrow> IsNoMatchError e \<or> IsForbidden e \<or> IsNotFound e
   \<Longrightarrow> fetchPath sd jq rp (results, warnings) =
        Inr (if IsNotFound e then results(DumpPath rp \<mapsto> ''# kube-api-error='' @ ReasonForError e)
             else results,
             warnings @ [''could not fetch '' @ ObjPath rp @ '': '' @ ErrorText e])"
  by (simp add: fetchPath_def Let_def)

lemma fetchPath_keys:
  assumes "fetchPath sd jq rp (r0, w0) = Inr (r1, w1)" and "r1 p \<noteq> None"
  shows "r0 p \<noteq> None \<or> (DumpPath rp = p \<and> sd (ObjPath rp) \<noteq> Body '''')"
  using assms
  by (auto simp: fetchPath_def Let_def
      split: streamed.splits if_splits prod.splits option.splits filter_error.splits)

lemma fetchLoop_keys:
  assumes "fetchLoop sd jq objects (r0, w0) = Inr (r, w)" and "r p \<noteq> None"
  shows "r0 p \<noteq> None \<or> (\<exists>rp\<in>set objects. DumpPath rp = p \<and> sd (ObjPath rp) \<noteq> Body '''')"
  using assms
proof (induction objects arbitrary: r0 w0)
  case Nil
  then show ?case by simp
next
  case (Cons a objects)
  from Cons.prems(1) obtain r1 w1 where
    step: "fetchPath sd jq a (r0, w0) = Inr (r1, w1)" and
    rest: "fetchLoop sd jq objects (r1, w1) = Inr (r, w)"
    by (auto split: sum.splits)
  from Cons.IH[OF rest Cons.prems(2)]
  show ?case
  proof
    assume "r1 p \<noteq> None"
    from fetchPath_keys[OF step this] show ?thesis by auto
  next
    assume "\<exists>rp\<in>set objects. DumpPath rp = p \<and> sd (ObjPath rp) \<noteq> Body ''''"
    then show ?thesis by auto
  qed
qed

lemma fold_storeRoleConfig_other:
  "\<not> prefix kubeletConfigRolePathPrefix k \<Longrightarrow> fold storeRoleConfig kc result k = result k"
  by (induction kc arbitrary: result) (auto simp: storeRoleConfig_def)

lemma saveConsistentKubeletResult_other:
  assumes "saveConsistentKubeletResult lib order result warning = Inr (result', warning')"
    and "\<not> prefix kubeletConfigRolePathPrefix k"
  shows "result' k = result k"
  using assms
  by (auto simp: saveConsistentKubeletResult_def fold_storeRoleConfig_other
      split: if_splits sum.splits)






subsection \<open>The filter and the error policy of the fetch loop\<close>

lemma role_eval:
  "getRoleNodeNameFromDumpPath ''/version'' = ('''', '''')"
  "getRoleNodeNameFromDumpPath ''/api/v1/nodes'' = ('''', '''')"
  "getRoleNodeNameFromDumpPath ''/missing'' = ('''', '''')"
  by (simp_all add: getRoleNodeNameFromDumpPath_def kubeletConfigPathPrefix_def)




text \<open>
  The errors of a stream in the loop of \<^verbatim>\<open>fetch\<close>. When streaming a path fails with an
  error that is not-found, forbidden or no-match, the loop goes on: after the paths
  before it, the remaining paths are fetched from the state with one more warning and,
  for not-found only, with the marker \<^verbatim>\<open># kube-api-error=\<close> and the reason at the
  DumpPath. With any other error of the stream the path fails, and a run over any list
  that holds this path returns an error and no result map; so does a run over a list
  with a path whose stream cannot be read to its end.
\<close>

lemma fetchLoop_error_policy:
  assumes "sd (ObjPath rp) = StreamError e"
  shows "(IsNoMatchError e \<or> IsForbidden e \<or> IsNotFound e \<longrightarrow>
           (\<forall>results warnings. fetchLoop sd jq pre st = Inr (results, warnings) \<longrightarrow>
             fetchLoop sd jq (pre @ rp # post) st =
               fetchLoop sd jq post
                 (if IsNotFound e
                  then results(DumpPath rp \<mapsto> ''# kube-api-error='' @ ReasonForError e)
                  else results,
                  warnings @ [''could not fetch '' @ ObjPath rp @ '': '' @ ErrorText e])))
      \<and> (\<not> (IsNoMatchError e \<or> IsForbidden e \<or> IsNotFound e) \<longrightarrow>
           (\<forall>results warnings. fetchPath sd jq rp (results, warnings) = Inl (StreamingURIsFailed e)) \<and>
           (rp \<in> set objects \<longrightarrow> (\<exists>ws err. fetch sd jq lib order objects = Inl (ws, err))))
      \<and> (sd (ObjPath rp') = ReadError r \<and> rp' \<in> set objects \<longrightarrow>
           (\<exists>ws err. fetch sd jq lib order objects = Inl (ws, err)))"
proof (intro conjI impI allI)
  fix results warnings
  assume nf: "IsNoMatchError e \<or> IsForbidden e \<or> IsNotFound e"
    and pre: "fetchLoop sd jq pre st = Inr (results, warnings)"
  show "fetchLoop sd jq (pre @ rp # post) st =
               fetchLoop sd jq post
                 (if IsNotFound e
                  then results(DumpPath rp \<mapsto> ''# kube-api-error='' @ ReasonForError e)
                  else results,
                  warnings @ [''could not fetch '' @ ObjPath rp @ '': '' @ ErrorText e])"
    using pre assms nf fetchPath_nonfatal[of sd rp e jq results warnings]
    by (simp add: fetchLoop_append)
next
  fix results warnings
  assume "\<not> (IsNoMatchError e \<or> IsForbidden e \<or> IsNotFound e)"
  then show "fetchPath sd jq rp (results, warnings) = Inl (StreamingURIsFailed e)"
    using assms fetchPath_fatal[of sd rp e jq] by blast
next
  assume f: "\<not> (IsNoMatchError e \<or> IsForbidden e \<or> IsNotFound e)" and m: "rp \<in> set objects"
  have "\<And>st. \<exists>err. fetchPath sd jq rp st = Inl err"
    using assms f fetchPath_fatal[of sd rp e jq] by blast
  from fetch_abort[OF m this, of lib order]
  show "\<exists>ws err. fetch sd jq lib order objects = Inl (ws, err)" by auto
next
  assume r: "sd (ObjPath rp') = ReadError r \<and> rp' \<in> set objects"
  have "\<And>st. \<exists>err. fetchPath sd jq rp' st = Inl err"
  proof -
    fix st :: "(string \<rightharpoonup> string) \<times> string list"
    from r show "\<exists>err. fetchPath sd jq rp' st = Inl err"
      by (cases st) (simp add: fetchPath_def)
  qed
  with r fetch_abort[of rp' objects sd jq lib order]
  show "\<exists>ws err. fetch sd jq lib order objects = Inl (ws, err)"
    by auto
qed

text \<open>A not-found path between two that are fetched, a run that a server error ends,
  and a run that a broken stream ends.\<close>

lemma fetchLoop_error_policy_example:
  "(case fetchLoop exampleCluster exampleJq
           [examplePath ''/api/v1/nodes'' '''', examplePath ''/missing'' '''',
            examplePath ''/version'' ''''] (Map.empty, []) of
      Inl we \<Rightarrow> False
    | Inr (found, ws) \<Rightarrow>
        found ''/api/v1/nodes'' = Some ''{/api/v1/nodes}''
        \<and> found ''/missing'' = Some ''# kube-api-error=NotFound''
        \<and> found ''/version'' = Some ''{/version}''
        \<and> ws = [''could not fetch /missing: the server could not find the requested resource''])
   \<and> (\<exists>ws err. fetch exampleCluster exampleJq exampleJsonlib []
          [examplePath ''/api/v1/nodes'' '''', examplePath ''/broken'' '''',
           examplePath ''/version'' ''''] = Inl (ws, err))
   \<and> (\<exists>ws err. fetch exampleCluster exampleJq exampleJsonlib []
          [examplePath ''/api/v1/nodes'' '''', examplePath ''/cut'' ''''] = Inl (ws, err))"
proof -
  have pre: "fetchLoop exampleCluster exampleJq [examplePath ''/api/v1/nodes'' ''''] (Map.empty, []) =
      Inr ([''/api/v1/nodes'' \<mapsto> ''{/api/v1/nodes}''], [])"
    by (simp add: fetchPath_def example_defs)
  have e1: "exampleCluster (ObjPath (examplePath ''/missing'' '''')) = StreamError exampleNotFound"
    "IsNoMatchError exampleNotFound \<or> IsForbidden exampleNotFound \<or> IsNotFound exampleNotFound"
    by (simp_all add: example_defs)
  have e2: "exampleCluster (ObjPath (examplePath ''/broken'' '''')) = StreamError exampleInternalError"
    "\<not> (IsNoMatchError exampleInternalError \<or> IsForbidden exampleInternalError \<or> IsNotFound exampleInternalError)"
    by (simp_all add: example_defs)
  from e1 pre
    fetchLoop_error_policy[where sd = exampleCluster and rp = "examplePath ''/missing'' ''''" and e = exampleNotFound
        and jq = exampleJq and pre = "[examplePath ''/api/v1/nodes'' '''']" and st = "(Map.empty, [])"
        and post = "[examplePath ''/version'' '''']"]
  have "fetchLoop exampleCluster exampleJq
           ([examplePath ''/api/v1/nodes'' ''''] @ examplePath ''/missing'' '''' #
            [examplePath ''/version'' '''']) (Map.empty, []) =
        fetchLoop exampleCluster exampleJq [examplePath ''/version'' '''']
          (if IsNotFound exampleNotFound
           then [''/api/v1/nodes'' \<mapsto> ''{/api/v1/nodes}'']
                  (DumpPath (examplePath ''/missing'' '''') \<mapsto>
                     ''# kube-api-error='' @ ReasonForError exampleNotFound)
           else [''/api/v1/nodes'' \<mapsto> ''{/api/v1/nodes}''],
           [] @ [''could not fetch '' @ ObjPath (examplePath ''/missing'' '''') @ '': '' @
                 ErrorText exampleNotFound])"
    by blast
  then have 1: "(case fetchLoop exampleCluster exampleJq
           [examplePath ''/api/v1/nodes'' '''', examplePath ''/missing'' '''',
            examplePath ''/version'' ''''] (Map.empty, []) of
      Inl we \<Rightarrow> False
    | Inr (found, ws) \<Rightarrow>
        found ''/api/v1/nodes'' = Some ''{/api/v1/nodes}''
        \<and> found ''/missing'' = Some ''# kube-api-error=NotFound''
        \<and> found ''/version'' = Some ''{/version}''
        \<and> ws = [''could not fetch /missing: the server could not find the requested resource''])"
    by (simp add: fetchPath_def example_defs)
  from e2
    fetchLoop_error_policy[where sd = exampleCluster and rp = "examplePath ''/broken'' ''''" and e = exampleInternalError
        and jq = exampleJq and lib = exampleJsonlib and order = "[]"
        and objects = "[examplePath ''/api/v1/nodes'' '''', examplePath ''/broken'' '''',
           examplePath ''/version'' '''']"]
  have 2: "\<exists>ws err. fetch exampleCluster exampleJq exampleJsonlib []
          [examplePath ''/api/v1/nodes'' '''', examplePath ''/broken'' '''',
           examplePath ''/version'' ''''] = Inl (ws, err)"
    by simp
  have e3: "exampleCluster (ObjPath (examplePath ''/cut'' '''')) = ReadError ''unexpected EOF'' \<and>
      examplePath ''/cut'' '''' \<in> set [examplePath ''/api/v1/nodes'' '''', examplePath ''/cut'' '''']"
    by (simp add: example_defs)
  from e2(1) e3
    fetchLoop_error_policy[where sd = exampleCluster and rp = "examplePath ''/broken'' ''''"
        and e = exampleInternalError and rp' = "examplePath ''/cut'' ''''" and r = "''unexpected EOF''"
        and jq = exampleJq and lib = exampleJsonlib and order = "[]"
        and objects = "[examplePath ''/api/v1/nodes'' '''', examplePath ''/cut'' '''']"]
  have 3: "\<exists>ws err. fetch exampleCluster exampleJq exampleJsonlib []
          [examplePath ''/api/v1/nodes'' '''', examplePath ''/cut'' ''''] = Inl (ws, err)"
    by blast
  from 1 2 3 show ?thesis by blast
qed

text \<open>The loop on two nodes of the role \<^verbatim>\<open>worker\<close>, the kubelet configuration of the
  first of which is not found.\<close>

lemma kubelet_example_loop:
  "fetchLoop exampleKubeletCluster exampleKubeletJq
      [kubeletConfigResourcePath ''worker'' ''w1'', kubeletConfigResourcePath ''worker'' ''w2'']
      (Map.empty, []) =
     Inr ([''/kubeletconfig/worker/w1'' \<mapsto> ''# kube-api-error=NotFound'',
           ''/kubeletconfig/worker/w2'' \<mapsto> ''{maxPods: 250}''],
          [''could not fetch /api/v1/nodes/w1/proxy/configz: the server could not find the requested resource''])"
  by (simp add: fetchPath_def filter_jq_def kubeletConfigResourcePath_def kubeletConfigFilter_def
      kubeletConfigPathPrefix_def kubelet_example_defs)

text \<open>
  Claim C4, against the code. A not-found does not end the loop of \<^verbatim>\<open>fetch\<close>, and the
  run can still end in an error with no result map. For two nodes \<^verbatim>\<open>w1\<close> and \<^verbatim>\<open>w2\<close>
  of the role \<^verbatim>\<open>worker\<close>, the kubelet configuration of \<^verbatim>\<open>w1\<close> not found: the loop
  stores the marker at \<^verbatim>\<open>/kubeletconfig/worker/w1\<close>, adds the one warning and fetches
  the configuration of \<^verbatim>\<open>w2\<close>; \<^verbatim>\<open>saveConsistentKubeletResult\<close> then compares the
  marker and the configuration of \<^verbatim>\<open>w2\<close> as the two entries of the role, the
  comparison fails on the marker, which is not JSON, and \<^verbatim>\<open>fetch\<close> returns this error
  without the map and without the warning, in whichever order the two entries are
  visited.
\<close>

theorem fetch_not_found_kubelet_config_aborts:
  "fetchLoop exampleKubeletCluster exampleKubeletJq
      [kubeletConfigResourcePath ''worker'' ''w1'', kubeletConfigResourcePath ''worker'' ''w2'']
      (Map.empty, []) =
     Inr ([''/kubeletconfig/worker/w1'' \<mapsto> ''# kube-api-error=NotFound'',
           ''/kubeletconfig/worker/w2'' \<mapsto> ''{maxPods: 250}''],
          [''could not fetch /api/v1/nodes/w1/proxy/configz: the server could not find the requested resource''])
   \<and> fetch exampleKubeletCluster exampleKubeletJq exampleDecodingJsonlib
        [''/kubeletconfig/worker/w1'', ''/kubeletconfig/worker/w2'']
        [kubeletConfigResourcePath ''worker'' ''w1'', kubeletConfigResourcePath ''worker'' ''w2''] =
      Inl ([], CouldntCompareKubeletConfigs
                 ''invalid character # looking for beginning of value'' ''w2'')
   \<and> fetch exampleKubeletCluster exampleKubeletJq exampleDecodingJsonlib
        [''/kubeletconfig/worker/w2'', ''/kubeletconfig/worker/w1'']
        [kubeletConfigResourcePath ''worker'' ''w1'', kubeletConfigResourcePath ''worker'' ''w2''] =
      Inl ([], CouldntCompareKubeletConfigs
                 ''invalid character # looking for beginning of value'' ''w1'')"
proof -
  have r: "getRoleNodeNameFromDumpPath ''/kubeletconfig/worker/w1'' = (''worker'', ''w1'')"
    "getRoleNodeNameFromDumpPath ''/kubeletconfig/worker/w2'' = (''worker'', ''w2'')"
    by (simp_all add: getRoleNodeNameFromDumpPath_def kubeletConfigPathPrefix_def)
  show ?thesis
    unfolding fetch_def kubelet_example_loop
    by (simp add: saveConsistentKubeletResult_def r exampleDecodingJsonlib_def)
qed

text \<open>
  Claim C9. A path whose body is empty leaves the result map and the warnings as they
  are, for every filter and query library (the filter is not run). If every path with
  the DumpPath \<open>p\<close> has an empty body and \<open>p\<close> is not a role-level key, the result map
  of a run has no entry at \<open>p\<close>.
\<close>

theorem fetchPath_empty_body_skipped:
  "(streamDispatcher (ObjPath rpath) = Body '''' \<longrightarrow>
      fetchPath streamDispatcher jq rpath (results, warnings) = Inr (results, warnings))
   \<and> ((\<forall>rp\<in>set objects. DumpPath rp = p \<longrightarrow> streamDispatcher (ObjPath rp) = Body '''')
        \<and> \<not> prefix kubeletConfigRolePathPrefix p
        \<and> fetch streamDispatcher jq lib order objects = Inr (found, ws)
      \<longrightarrow> found p = None)"
proof (intro conjI impI)
  assume "streamDispatcher (ObjPath rpath) = Body ''''"
  then show "fetchPath streamDispatcher jq rpath (results, warnings) = Inr (results, warnings)"
    by (rule fetchPath_empty)
next
  assume a: "(\<forall>rp\<in>set objects. DumpPath rp = p \<longrightarrow> streamDispatcher (ObjPath rp) = Body '''')
        \<and> \<not> prefix kubeletConfigRolePathPrefix p
        \<and> fetch streamDispatcher jq lib order objects = Inr (found, ws)"
  then obtain r w where
    loop: "fetchLoop streamDispatcher jq objects (Map.empty, []) = Inr (r, w)" and
    save: "saveConsistentKubeletResult lib order r w = Inr (found, ws)"
    by (auto simp: fetch_def split: sum.splits)
  have "r p = None"
  proof (rule ccontr)
    assume "r p \<noteq> None"
    from fetchLoop_keys[OF loop this] a show False by auto
  qed
  with saveConsistentKubeletResult_other[OF save, of p] a show "found p = None"
    by simp
qed


text \<open>An empty body under a filter that does not even parse.\<close>

theorem fetchPath_empty_body_skipped_witness:
  "fetchPath exampleCluster exampleJq (examplePath ''/empty'' ''?'') (Map.empty, []) =
     Inr (Map.empty, [])
   \<and> (\<exists>found ws. fetch exampleCluster exampleJq exampleJsonlib [''/version'']
          [examplePath ''/empty'' ''?'', examplePath ''/version'' ''''] = Inr (found, ws)
        \<and> found ''/version'' = Some ''{/version}'' \<and> found ''/empty'' = None \<and> ws = [])"
proof -
  have e: "exampleCluster (ObjPath (examplePath ''/empty'' ''?'')) = Body ''''"
    by (simp add: example_defs)
  from e fetchPath_empty_body_skipped[where streamDispatcher = exampleCluster and rpath = "examplePath ''/empty'' ''?''"
      and jq = exampleJq and results = Map.empty and warnings = "[]"]
  have 1: "fetchPath exampleCluster exampleJq (examplePath ''/empty'' ''?'') (Map.empty, []) =
     Inr (Map.empty, [])"
    by blast
  have run: "fetch exampleCluster exampleJq exampleJsonlib [''/version'']
          [examplePath ''/empty'' ''?'', examplePath ''/version'' ''''] =
          Inr ([''/version'' \<mapsto> ''{/version}''], [])"
    by (simp add: fetch_def fetchPath_def saveConsistentKubeletResult_def role_eval example_defs)
  have all: "\<forall>rp\<in>set [examplePath ''/empty'' ''?'', examplePath ''/version'' ''''].
      DumpPath rp = ''/empty'' \<longrightarrow> exampleCluster (ObjPath rp) = Body ''''"
    by (simp add: example_defs)
  have np: "\<not> prefix kubeletConfigRolePathPrefix ''/empty''"
    by (simp add: kubeletConfigRolePathPrefix_def)
  from all np run
    fetchPath_empty_body_skipped[where streamDispatcher = exampleCluster and jq = exampleJq and lib = exampleJsonlib
      and order = "[''/version'']" and p = "''/empty''"
      and objects = "[examplePath ''/empty'' ''?'', examplePath ''/version'' '''']"
      and found = "[''/version'' \<mapsto> ''{/version}'']" and ws = "[]"]
  have "[''/version'' \<mapsto> ''{/version}''] ''/empty'' = (None :: string option)"
    by blast
  with run have 2: "\<exists>found ws. fetch exampleCluster exampleJq exampleJsonlib [''/version'']
          [examplePath ''/empty'' ''?'', examplePath ''/version'' ''''] = Inr (found, ws)
        \<and> found ''/version'' = Some ''{/version}'' \<and> found ''/empty'' = None \<and> ws = []"
    by simp
  from 1 2 show ?thesis by blast
qed


subsection \<open>Reconciling the kubelet configurations\<close>

lemma roleEntries_Nil [simp]: "roleEntries role result [] = []"
  by (simp add: roleEntries_def map_filter_simps)

lemma roleEntries_Cons:
  "roleEntries role result (k # ks) =
     (case result k of
        None \<Rightarrow> roleEntries role result ks
      | Some content \<Rightarrow>
          if fst (getRoleNodeNameFromDumpPath k) = role
          then (snd (getRoleNodeNameFromDumpPath k), content) # roleEntries role result ks
          else roleEntries role result ks)"
  by (simp add: roleEntries_def map_filter_simps split: option.splits)

lemma reconcileFrom_Nil [simp]: "reconcileFrom lib role b [] = Inr (b, [])"
  by (cases b) simp_all

lemma warningsFrom_Nil [simp]: "warningsFrom lib r b [] = []"
  by (simp add: warningsFrom_def)

lemma foldKubeletConfigs_step:
  assumes "foldKubeletConfigs lib result (k # ks) (kc, w) = Inr (kc', w')"
  shows "\<exists>kc1 extra. foldKubeletConfigs lib result ks (kc1, w @ extra) = Inr (kc', w')
      \<and> (extra \<noteq> [] \<longrightarrow> result k \<noteq> None \<and> fst (getRoleNodeNameFromDumpPath k) \<noteq> '''')
      \<and> (\<forall>r. r \<noteq> '''' \<longrightarrow>
            reconcileFrom lib r (map_of kc r) (roleEntries r result (k # ks)) =
              (case reconcileFrom lib r (map_of kc1 r) (roleEntries r result ks) of
                 Inl e \<Rightarrow> Inl e
               | Inr (a, ws) \<Rightarrow>
                   Inr (a, (if fst (getRoleNodeNameFromDumpPath k) = r then extra else []) @ ws)))"
proof (cases "result k")
  case None
  with assms have "foldKubeletConfigs lib result ks (kc, w @ []) = Inr (kc', w')" by simp
  moreover have "\<forall>r. r \<noteq> '''' \<longrightarrow>
            reconcileFrom lib r (map_of kc r) (roleEntries r result (k # ks)) =
              (case reconcileFrom lib r (map_of kc r) (roleEntries r result ks) of
                 Inl e \<Rightarrow> Inl e
               | Inr (a, ws) \<Rightarrow>
                   Inr (a, (if fst (getRoleNodeNameFromDumpPath k) = r then [] else []) @ ws))"
    using None by (auto simp: roleEntries_Cons split: sum.splits)
  ultimately show ?thesis by blast
next
  case (Some content)
  obtain rk n where rn: "getRoleNodeNameFromDumpPath k = (rk, n)"
    by (cases "getRoleNodeNameFromDumpPath k")
  show ?thesis
  proof (cases "rk = ''''")
    case True
    with assms Some rn have "foldKubeletConfigs lib result ks (kc, w @ []) = Inr (kc', w')" by simp
    moreover have "\<forall>r. r \<noteq> '''' \<longrightarrow>
            reconcileFrom lib r (map_of kc r) (roleEntries r result (k # ks)) =
              (case reconcileFrom lib r (map_of kc r) (roleEntries r result ks) of
                 Inl e \<Rightarrow> Inl e
               | Inr (a, ws) \<Rightarrow>
                   Inr (a, (if fst (getRoleNodeNameFromDumpPath k) = r then [] else []) @ ws))"
      using Some rn True by (auto simp: roleEntries_Cons split: sum.splits)
    ultimately show ?thesis by blast
  next
    case False
    show ?thesis
    proof (cases "map_of kc rk")
      case None
      with assms Some rn False
      have "foldKubeletConfigs lib result ks (AList.update rk content kc, w @ []) = Inr (kc', w')"
        by simp
      moreover have "\<forall>r. r \<noteq> '''' \<longrightarrow>
            reconcileFrom lib r (map_of kc r) (roleEntries r result (k # ks)) =
              (case reconcileFrom lib r (map_of (AList.update rk content kc) r) (roleEntries r result ks) of
                 Inl e \<Rightarrow> Inl e
               | Inr (a, ws) \<Rightarrow>
                   Inr (a, (if fst (getRoleNodeNameFromDumpPath k) = r then [] else []) @ ws))"
        using Some rn None by (auto simp: roleEntries_Cons update_conv' split: sum.splits)
      ultimately show ?thesis by blast
    next
      case (Some b)
      note kcr = this
      from assms \<open>result k = Some content\<close> rn False kcr
      obtain d where cmp: "CompareJSON lib b content = Inr d"
        by (cases "CompareJSON lib b content") auto
      show ?thesis
      proof (cases d)
        case None
        with assms \<open>result k = Some content\<close> rn False kcr cmp
        have "foldKubeletConfigs lib result ks (kc, w @ []) = Inr (kc', w')" by simp
        moreover have "\<forall>r. r \<noteq> '''' \<longrightarrow>
            reconcileFrom lib r (map_of kc r) (roleEntries r result (k # ks)) =
              (case reconcileFrom lib r (map_of kc r) (roleEntries r result ks) of
                 Inl e \<Rightarrow> Inl e
               | Inr (a, ws) \<Rightarrow>
                   Inr (a, (if fst (getRoleNodeNameFromDumpPath k) = r then [] else []) @ ws))"
          using \<open>result k = Some content\<close> rn kcr cmp None
          by (auto simp: roleEntries_Cons split: sum.splits)
        ultimately show ?thesis by blast
      next
        case (Some diff)
        from assms \<open>result k = Some content\<close> rn False kcr cmp Some
        obtain i where int: "JSONIntersection lib b content = Inr i"
          by (cases "JSONIntersection lib b content") auto
        with assms \<open>result k = Some content\<close> rn False kcr cmp Some
        have "foldKubeletConfigs lib result ks
            (AList.update rk i kc, w @ [inconsistentWarning n rk diff]) = Inr (kc', w')"
          by simp
        moreover have "[inconsistentWarning n rk diff] \<noteq> [] \<longrightarrow>
            result k \<noteq> None \<and> fst (getRoleNodeNameFromDumpPath k) \<noteq> ''''"
          using \<open>result k = Some content\<close> rn False by simp
        moreover have "\<forall>r. r \<noteq> '''' \<longrightarrow>
            reconcileFrom lib r (map_of kc r) (roleEntries r result (k # ks)) =
              (case reconcileFrom lib r (map_of (AList.update rk i kc) r) (roleEntries r result ks) of
                 Inl e \<Rightarrow> Inl e
               | Inr (a, ws) \<Rightarrow>
                   Inr (a, (if fst (getRoleNodeNameFromDumpPath k) = r
                            then [inconsistentWarning n rk diff] else []) @ ws))"
          using \<open>result k = Some content\<close> rn kcr cmp Some int
          by (auto simp: roleEntries_Cons update_conv' split: sum.splits)
        ultimately show ?thesis by blast
      qed
    qed
  qed
qed

lemma foldKubeletConfigs_role:
  assumes "foldKubeletConfigs lib result order (kc, w) = Inr (kc', w')" and "role \<noteq> ''''"
  shows "\<exists>ws added. reconcileFrom lib role (map_of kc role) (roleEntries role result order) =
            Inr (map_of kc' role, ws) \<and> w' = w @ added \<and> subseq ws added"
  using assms(1)
proof (induction order arbitrary: kc w)
  case Nil
  then show ?case by simp
next
  case (Cons k ks)
  from foldKubeletConfigs_step[OF Cons.prems] assms(2) obtain kc1 extra where
    rest: "foldKubeletConfigs lib result ks (kc1, w @ extra) = Inr (kc', w')" and
    rec: "reconcileFrom lib role (map_of kc role) (roleEntries role result (k # ks)) =
              (case reconcileFrom lib role (map_of kc1 role) (roleEntries role result ks) of
                 Inl e \<Rightarrow> Inl e
               | Inr (a, ws) \<Rightarrow>
                   Inr (a, (if fst (getRoleNodeNameFromDumpPath k) = role then extra else []) @ ws))"
    by blast
  from Cons.IH[OF rest] obtain ws added where
    ih: "reconcileFrom lib role (map_of kc1 role) (roleEntries role result ks) =
           Inr (map_of kc' role, ws)" "w' = (w @ extra) @ added" "subseq ws added"
    by blast
  let ?ws = "(if fst (getRoleNodeNameFromDumpPath k) = role then extra else []) @ ws"
  from rec ih(1) have "reconcileFrom lib role (map_of kc role) (roleEntries role result (k # ks)) =
      Inr (map_of kc' role, ?ws)"
    by simp
  moreover from ih(2) have "w' = w @ (extra @ added)"
    by simp
  moreover from ih(3) have "subseq ?ws (extra @ added)"
    by (simp add: list_emb_append2 subseq_append')
  ultimately show ?case by blast
qed


lemma foldedRoles_Cons_subset:
  "set (foldedRoles result ks) \<subseteq> set (foldedRoles result (k # ks))"
  by (auto simp: foldedRoles_def)

lemma foldedRoles_Cons_mem:
  "result k \<noteq> None \<Longrightarrow> fst (getRoleNodeNameFromDumpPath k) \<noteq> '''' \<Longrightarrow>
   fst (getRoleNodeNameFromDumpPath k) \<in> set (foldedRoles result (k # ks))"
  by (auto simp: foldedRoles_def)

lemma foldKubeletConfigs_warnings:
  assumes "foldKubeletConfigs lib result order (kc, w) = Inr (kc', w')"
    and "finite S" and "'''' \<notin> S" and "set (foldedRoles result order) \<subseteq> S"
  shows "mset w' = mset w + (\<Sum>r\<in>S. mset (warningsFrom lib r (map_of kc r) (roleEntries r result order)))"
  using assms(1,4)
proof (induction order arbitrary: kc w)
  case Nil
  then show ?case by simp
next
  case (Cons k ks)
  from foldKubeletConfigs_step[OF Cons.prems(1)] obtain kc1 extra where
    rest: "foldKubeletConfigs lib result ks (kc1, w @ extra) = Inr (kc', w')" and
    ex: "extra \<noteq> [] \<longrightarrow> result k \<noteq> None \<and> fst (getRoleNodeNameFromDumpPath k) \<noteq> ''''" and
    rec: "\<And>r. r \<noteq> '''' \<Longrightarrow>
            reconcileFrom lib r (map_of kc r) (roleEntries r result (k # ks)) =
              (case reconcileFrom lib r (map_of kc1 r) (roleEntries r result ks) of
                 Inl e \<Rightarrow> Inl e
               | Inr (a, ws) \<Rightarrow>
                   Inr (a, (if fst (getRoleNodeNameFromDumpPath k) = r then extra else []) @ ws))"
    by blast
  from Cons.prems(2) foldedRoles_Cons_subset[of result ks k]
  have sub: "set (foldedRoles result ks) \<subseteq> S" by blast
  note ih = Cons.IH[OF rest sub]
  have each: "warningsFrom lib r (map_of kc r) (roleEntries r result (k # ks)) =
      (if fst (getRoleNodeNameFromDumpPath k) = r then extra else []) @
      warningsFrom lib r (map_of kc1 r) (roleEntries r result ks)" if "r \<in> S" for r
  proof -
    from that assms(3) have ne: "r \<noteq> ''''" by auto
    from foldKubeletConfigs_role[OF rest ne] obtain ws where
      "reconcileFrom lib r (map_of kc1 r) (roleEntries r result ks) = Inr (map_of kc' r, ws)"
      by blast
    with rec[OF ne] show ?thesis by (simp add: warningsFrom_def)
  qed
  have "(\<Sum>r\<in>S. mset (warningsFrom lib r (map_of kc r) (roleEntries r result (k # ks)))) =
      (\<Sum>r\<in>S. (if fst (getRoleNodeNameFromDumpPath k) = r then mset extra else {#}) +
          mset (warningsFrom lib r (map_of kc1 r) (roleEntries r result ks)))"
    by (rule sum.cong) (simp_all add: each)
  also have "\<dots> = (\<Sum>r\<in>S. (if fst (getRoleNodeNameFromDumpPath k) = r then mset extra else {#})) +
      (\<Sum>r\<in>S. mset (warningsFrom lib r (map_of kc1 r) (roleEntries r result ks)))"
    by (simp add: sum.distrib)
  also have "(\<Sum>r\<in>S. (if fst (getRoleNodeNameFromDumpPath k) = r then mset extra else {#})) = mset extra"
  proof (cases "extra = []")
    case True
    then show ?thesis by (simp cong: if_cong)
  next
    case False
    with ex foldedRoles_Cons_mem[of result k ks] Cons.prems(2)
    have "fst (getRoleNodeNameFromDumpPath k) \<in> S" by blast
    with assms(2) show ?thesis by (simp add: sum.delta')
  qed
  finally show ?case using ih by simp
qed

lemma foldKubeletConfigs_distinct:
  "foldKubeletConfigs lib result order (kc, w) = Inr (kc', w') \<Longrightarrow> distinct (map fst kc) \<Longrightarrow>
   distinct (map fst kc')"
proof (induction order arbitrary: kc w)
  case Nil
  then show ?case by simp
next
  case (Cons k ks)
  then show ?case
    by (auto simp: distinct_update split: option.splits sum.splits prod.splits if_splits)
qed

lemma fold_storeRoleConfig_absent:
  "role \<notin> fst ` set kc \<Longrightarrow>
   fold storeRoleConfig kc result (kubeletConfigRolePathPrefix @ role) =
     result (kubeletConfigRolePathPrefix @ role)"
  by (induction kc arbitrary: result) (auto simp: storeRoleConfig_def)

lemma fold_storeRoleConfig_role:
  "distinct (map fst kc) \<Longrightarrow> map_of kc role = Some a \<Longrightarrow> role \<noteq> '''' \<Longrightarrow>
   fold storeRoleConfig kc result (kubeletConfigRolePathPrefix @ role) = Some a"
proof (induction kc arbitrary: result)
  case Nil
  then show ?case by simp
next
  case (Cons rc kc)
  obtain r c where rc: "rc = (r, c)" by (cases rc)
  show ?case
  proof (cases "r = role")
    case True
    with Cons.prems rc have "role \<notin> fst ` set kc" and "c = a" by auto
    moreover from Cons.prems(3) have
      "storeRoleConfig (role, a) result = result(kubeletConfigRolePathPrefix @ role \<mapsto> a)"
      by (simp add: storeRoleConfig_def)
    ultimately show ?thesis
      using True rc by (simp add: fold_storeRoleConfig_absent)
  next
    case False
    with Cons rc show ?thesis by (simp add: storeRoleConfig_def)
  qed
qed

lemma fold_storeRoleConfig_frame:
  "\<forall>r\<in>fst ` set kc. r \<noteq> '''' \<longrightarrow> k \<noteq> kubeletConfigRolePathPrefix @ r \<Longrightarrow>
   fold storeRoleConfig kc result k = result k"
  by (induction kc arbitrary: result) (auto simp: storeRoleConfig_def)

lemma storeRoleConfig_commute:
  assumes "fst x \<noteq> fst y \<or> x = y"
  shows "storeRoleConfig x \<circ> storeRoleConfig y = storeRoleConfig y \<circ> storeRoleConfig x"
  using assms
  by (cases x; cases y) (auto simp: storeRoleConfig_def fun_eq_iff)

lemma fold_storeRoleConfig_any_order:
  assumes "distinct (map fst kc)" and "mset kc' = mset kc"
  shows "fold storeRoleConfig kc' result = fold storeRoleConfig kc result"
proof -
  have "\<And>x y. x \<in> set kc \<Longrightarrow> y \<in> set kc \<Longrightarrow>
      storeRoleConfig x \<circ> storeRoleConfig y = storeRoleConfig y \<circ> storeRoleConfig x"
  proof -
    fix x y assume "x \<in> set kc" "y \<in> set kc"
    with assms(1) have "fst x \<noteq> fst y \<or> x = y"
      by (metis eq_key_imp_eq_value prod.collapse)
    then show "storeRoleConfig x \<circ> storeRoleConfig y = storeRoleConfig y \<circ> storeRoleConfig x"
      by (rule storeRoleConfig_commute)
  qed
  from fold_multiset_equiv[of kc storeRoleConfig kc', OF this assms(2)[symmetric]]
  show ?thesis by simp
qed

lemma roleEntries_foldedRoles:
  "role \<noteq> '''' \<Longrightarrow> (roleEntries role result order \<noteq> []) = (role \<in> set (foldedRoles result order))"
  by (induction order) (auto simp: roleEntries_Cons foldedRoles_def split: option.splits)

lemma empty_not_folded: "'''' \<notin> set (foldedRoles result order)"
  by (simp add: foldedRoles_def)

lemma reconcileFrom_Cons_Some:
  "reconcileFrom lib role None (e # es) = Inr (x, ws) \<Longrightarrow> x \<noteq> None"
  by (cases e) (auto split: sum.splits)

lemma foldKubeletConfigs_keys:
  assumes "foldKubeletConfigs lib result order ([], w) = Inr (kc', w')" and "role \<noteq> ''''"
  shows "(map_of kc' role \<noteq> None) = (role \<in> set (foldedRoles result order))"
proof -
  from foldKubeletConfigs_role[OF assms] obtain ws where
    r: "reconcileFrom lib role None (roleEntries role result order) = Inr (map_of kc' role, ws)"
    by auto
  show ?thesis
  proof (cases "roleEntries role result order")
    case Nil
    with r roleEntries_foldedRoles[OF assms(2), of result order] show ?thesis by simp
  next
    case (Cons e es)
    with r reconcileFrom_Cons_Some[of lib role e es "map_of kc' role" ws]
    have "map_of kc' role \<noteq> None"
      by simp
    with Cons roleEntries_foldedRoles[OF assms(2), of result order] show ?thesis
      by simp
  qed
qed

lemma splitSlash_not_Nil: "splitSlash s \<noteq> []"
  by (induction s) (auto split: list.splits)

lemma splitSlash_char:
  "c \<noteq> CHR ''/'' \<Longrightarrow> splitSlash (c # s) = (c # hd (splitSlash s)) # tl (splitSlash s)"
  using splitSlash_not_Nil[of s] by (auto split: list.splits)

lemma splitSlash_role_prefix:
  "splitSlash (kubeletConfigRolePathPrefix @ x) = '''' # ''kubeletconfig'' # ''role'' # splitSlash x"
  by (simp add: kubeletConfigRolePathPrefix_def splitSlash_char del: splitSlash.simps(2))
     (simp add: splitSlash_not_Nil)

lemma role_level_key_role:
  assumes "prefix kubeletConfigRolePathPrefix k"
  shows "fst (getRoleNodeNameFromDumpPath k) = '''' \<or> fst (getRoleNodeNameFromDumpPath k) = ''role''"
proof -
  from assms obtain x where "k = kubeletConfigRolePathPrefix @ x" by (auto simp: prefix_def)
  then show ?thesis
    by (simp add: getRoleNodeNameFromDumpPath_def splitSlash_role_prefix Let_def
        del: splitSlash.simps)
qed

lemma example_roles:
  "getRoleNodeNameFromDumpPath ''/kubeletconfig/worker/node-1'' = (''worker'', ''node-1'')"
  "getRoleNodeNameFromDumpPath ''/kubeletconfig/worker/node-2'' = (''worker'', ''node-2'')"
  "getRoleNodeNameFromDumpPath ''/kubeletconfig/worker/node-3'' = (''worker'', ''node-3'')"
  "getRoleNodeNameFromDumpPath ''/kubeletconfig/role/worker'' = (''role'', ''worker'')"
  by (simp_all add: getRoleNodeNameFromDumpPath_def kubeletConfigPathPrefix_def)

text \<open>Against the example of claim C2 as stated: the three nodes of the role
  \<^verbatim>\<open>worker\<close> report A, A and B, and the node that reports B is visited first. The
  artifact is A without \<^verbatim>\<open>maxPods\<close>, and there are two warnings, which name the
  nodes that report A.\<close>

theorem saveConsistentKubeletResult_order_counterexample:
  "saveConsistentKubeletResult exampleDocuments
     [''/kubeletconfig/worker/node-3'', ''/kubeletconfig/worker/node-1'',
      ''/kubeletconfig/worker/node-2''] exampleNodeConfigs [] =
   Inr (exampleNodeConfigs(''/kubeletconfig/role/worker'' \<mapsto> [(''cgroupDriver'', ''systemd'')]),
        [''Kubelet configs for node-1 are not consistent with role worker, Diff: maxPods of KubeletConfigs for worker role will not be saved.'',
         ''Kubelet configs for node-2 are not consistent with role worker, Diff: maxPods of KubeletConfigs for worker role will not be saved.''])"
  by (simp add: saveConsistentKubeletResult_def storeRoleConfig_def example_roles example_defs
      inconsistentWarning_def kubeletConfigRolePathPrefix_def)

text \<open>
  Claim C2, as the code has it. When \<^verbatim>\<open>saveConsistentKubeletResult\<close> returns a result
  map, then for every role with a node-level entry, in the order in which the entries
  are visited: the first entry is the baseline, the later entries are folded into it
  as \<open>reconcileRole\<close> says (an entry that differs from the baseline gives one warning
  with its node and the role, and the intersection becomes the baseline), and the
  artifact lies at the role-level key. The warnings are appended to those given; the
  warnings of the role are among the added ones, in order, and the added warnings
  are, counted with repetitions, those of the folded roles and no others.
\<close>

theorem saveConsistentKubeletResult_reconciles:
  assumes "saveConsistentKubeletResult lib order result warning = Inr (result', warning')"
    and "role \<noteq> ''''"
    and "roleEntries role result order = (node1, content1) # later"
  shows "\<exists>artifact ws added.
           reconcileRole lib role content1 later = Inr (artifact, ws)
         \<and> result' (kubeletConfigRolePathPrefix @ role) = Some artifact
         \<and> warning' = warning @ added \<and> subseq ws added
         \<and> mset added = (\<Sum>r\<in>set (foldedRoles result order). mset (roleWarnings lib r result order))"
proof -
  from assms(3) have ne: "order \<noteq> []" by auto
  with assms(1) obtain kc' where
    f: "foldKubeletConfigs lib result order ([], warning) = Inr (kc', warning')" and
    r': "result' = fold storeRoleConfig kc' result"
    by (auto simp: saveConsistentKubeletResult_def split: sum.splits)
  from foldKubeletConfigs_role[OF f assms(2)] assms(3) obtain artifact ws added where
    rec: "reconcileRole lib role content1 later = Inr (artifact, ws)" and
    kc: "map_of kc' role = Some artifact" and
    w: "warning' = warning @ added" "subseq ws added"
    by (auto split: sum.splits)
  from foldKubeletConfigs_distinct[OF f] have "distinct (map fst kc')" by simp
  from fold_storeRoleConfig_role[OF this kc assms(2)] r'
  have st: "result' (kubeletConfigRolePathPrefix @ role) = Some artifact" by simp
  from foldKubeletConfigs_warnings[OF f _ empty_not_folded subset_refl] w(1)
  have "mset added = (\<Sum>r\<in>set (foldedRoles result order). mset (roleWarnings lib r result order))"
    by (simp add: roleWarnings_def)
  with rec st w show ?thesis by blast
qed


text \<open>The example of the claim when the node that reports B is visited last: the
  artifact is A without \<^verbatim>\<open>maxPods\<close>, the one warning names \<^verbatim>\<open>node-3\<close>.\<close>

theorem saveConsistentKubeletResult_reconciles_witness:
  "saveConsistentKubeletResult exampleDocuments
     [''/kubeletconfig/worker/node-1'', ''/kubeletconfig/worker/node-2'',
      ''/kubeletconfig/worker/node-3''] exampleNodeConfigs [] =
   Inr (exampleNodeConfigs(''/kubeletconfig/role/worker'' \<mapsto> [(''cgroupDriver'', ''systemd'')]),
        [''Kubelet configs for node-3 are not consistent with role worker, Diff: maxPods of KubeletConfigs for worker role will not be saved.''])"
proof -
  let ?order = "[''/kubeletconfig/worker/node-1'', ''/kubeletconfig/worker/node-2'',
      ''/kubeletconfig/worker/node-3'']"
  obtain result' warning' where run:
    "saveConsistentKubeletResult exampleDocuments ?order exampleNodeConfigs [] = Inr (result', warning')"
    and frame: "result' = fold storeRoleConfig [(''worker'', [(''cgroupDriver'', ''systemd'')])] exampleNodeConfigs"
    by (simp add: saveConsistentKubeletResult_def example_roles example_defs inconsistentWarning_def)
  have entries: "roleEntries ''worker'' exampleNodeConfigs ?order =
      (''node-1'', exampleConfigA) # [(''node-2'', exampleConfigA), (''node-3'', exampleConfigB)]"
    by (simp add: roleEntries_Cons example_roles exampleNodeConfigs_def)
  have roles: "foldedRoles exampleNodeConfigs ?order = [''worker'']"
    by (simp add: foldedRoles_def example_roles exampleNodeConfigs_def)
  have rec: "reconcileRole exampleDocuments ''worker'' exampleConfigA
      [(''node-2'', exampleConfigA), (''node-3'', exampleConfigB)] =
      Inr ([(''cgroupDriver'', ''systemd'')],
           [''Kubelet configs for node-3 are not consistent with role worker, Diff: maxPods of KubeletConfigs for worker role will not be saved.''])"
    by (simp add: example_defs inconsistentWarning_def)
  have ws: "roleWarnings exampleDocuments ''worker'' exampleNodeConfigs ?order =
      [''Kubelet configs for node-3 are not consistent with role worker, Diff: maxPods of KubeletConfigs for worker role will not be saved.'']"
    using rec by (simp add: roleWarnings_def warningsFrom_def entries)
  from saveConsistentKubeletResult_reconciles[OF run _ entries] rec roles ws
  have "result' (kubeletConfigRolePathPrefix @ ''worker'') = Some [(''cgroupDriver'', ''systemd'')]"
    and "warning' = [''Kubelet configs for node-3 are not consistent with role worker, Diff: maxPods of KubeletConfigs for worker role will not be saved.'']"
    by auto
  with run frame show ?thesis
    by (simp add: storeRoleConfig_def kubeletConfigRolePathPrefix_def)
qed


lemma saveConsistentKubeletResult_role_artifact:
  assumes "saveConsistentKubeletResult lib order result warning = Inr (result', warning')"
    and "role \<in> set (foldedRoles result order)"
  shows "\<exists>node1 content1 later artifact ws.
           roleEntries role result order = (node1, content1) # later
         \<and> reconcileRole lib role content1 later = Inr (artifact, ws)
         \<and> result' (kubeletConfigRolePathPrefix @ role) = Some artifact"
proof -
  from assms(2) empty_not_folded[of result order] have ne: "role \<noteq> ''''" by auto
  from assms(2) have "order \<noteq> []" by (auto simp: foldedRoles_def)
  with assms(1) obtain kc' where
    f: "foldKubeletConfigs lib result order ([], warning) = Inr (kc', warning')" and
    r': "result' = fold storeRoleConfig kc' result"
    by (auto simp: saveConsistentKubeletResult_def split: sum.splits)
  from assms(2) roleEntries_foldedRoles[OF ne, of result order]
  obtain node1 content1 later where
    e: "roleEntries role result order = (node1, content1) # later"
    by (cases "roleEntries role result order") auto
  from foldKubeletConfigs_role[OF f ne] e obtain artifact ws where
    rec: "reconcileRole lib role content1 later = Inr (artifact, ws)" and
    kc: "map_of kc' role = Some artifact"
    by (auto split: sum.splits)
  from foldKubeletConfigs_distinct[OF f] have "distinct (map fst kc')" by simp
  from fold_storeRoleConfig_role[OF this kc ne] r'
  have "result' (kubeletConfigRolePathPrefix @ role) = Some artifact" by simp
  with e rec show ?thesis by blast
qed

text \<open>Against claim C10 as stated: the entry of the node \<^verbatim>\<open>worker\<close> of the role
  \<^verbatim>\<open>role\<close> lies at the role-level key of the role \<^verbatim>\<open>worker\<close>, and the artifact of
  that role replaces its bytes.\<close>

theorem saveConsistentKubeletResult_overwrites_counterexample:
  "exampleCollision ''/kubeletconfig/role/worker'' = Some ''{maxPods: 250}''
   \<and> saveConsistentKubeletResult exampleJsonlib
        [''/kubeletconfig/role/worker'', ''/kubeletconfig/worker/node-1''] exampleCollision [] =
      Inr (exampleCollision
             (''/kubeletconfig/role/role'' \<mapsto> ''{maxPods: 250}'',
              ''/kubeletconfig/role/worker'' \<mapsto> ''{maxPods: 110}''), [])"
  by (simp add: saveConsistentKubeletResult_def storeRoleConfig_def example_roles
      kubeletConfigRolePathPrefix_def exampleCollision_def)

text \<open>
  Claim C10, as the code has it. \<^verbatim>\<open>saveConsistentKubeletResult\<close> writes the role-level
  keys of the roles it folds and no other key: an entry at any other key is in the map
  afterwards as it was, and so is every node-level entry of a role that is not named
  \<^verbatim>\<open>role\<close>; at the role-level key of each folded role the map holds afterwards the
  artifact of that role, the first of its node-level entries with the later ones
  folded into it, whatever was at this key before.
\<close>

theorem saveConsistentKubeletResult_frame:
  assumes "saveConsistentKubeletResult lib order result warning = Inr (result', warning')"
  shows "(\<forall>k. k \<notin> (\<lambda>role. kubeletConfigRolePathPrefix @ role) ` set (foldedRoles result order) \<longrightarrow>
            result' k = result k)
       \<and> (\<forall>k. fst (getRoleNodeNameFromDumpPath k) \<noteq> '''' \<and>
              fst (getRoleNodeNameFromDumpPath k) \<noteq> ''role'' \<longrightarrow> result' k = result k)
       \<and> (\<forall>role\<in>set (foldedRoles result order).
            \<exists>node1 content1 later artifact ws.
              roleEntries role result order = (node1, content1) # later
            \<and> reconcileRole lib role content1 later = Inr (artifact, ws)
            \<and> result' (kubeletConfigRolePathPrefix @ role) = Some artifact)"
proof (intro conjI allI impI ballI)
  fix k
  assume "fst (getRoleNodeNameFromDumpPath k) \<noteq> '''' \<and>
          fst (getRoleNodeNameFromDumpPath k) \<noteq> ''role''"
  with role_level_key_role[of k] have "\<not> prefix kubeletConfigRolePathPrefix k"
    by blast
  with saveConsistentKubeletResult_other[OF assms] show "result' k = result k"
    by blast
next
  fix k
  assume k: "k \<notin> (\<lambda>role. kubeletConfigRolePathPrefix @ role) ` set (foldedRoles result order)"
  show "result' k = result k"
  proof (cases "order = []")
    case True
    with assms show ?thesis by (simp add: saveConsistentKubeletResult_def)
  next
    case False
    with assms obtain kc' where
      f: "foldKubeletConfigs lib result order ([], warning) = Inr (kc', warning')" and
      r': "result' = fold storeRoleConfig kc' result"
      by (auto simp: saveConsistentKubeletResult_def split: sum.splits)
    have "\<forall>r\<in>fst ` set kc'. r \<noteq> '''' \<longrightarrow> k \<noteq> kubeletConfigRolePathPrefix @ r"
    proof (intro ballI impI)
      fix r assume "r \<in> fst ` set kc'" and ne: "r \<noteq> ''''"
      then have "map_of kc' r \<noteq> None" by (simp add: map_of_eq_None_iff)
      with foldKubeletConfigs_keys[OF f ne] have "r \<in> set (foldedRoles result order)" by simp
      with k show "k \<noteq> kubeletConfigRolePathPrefix @ r" by auto
    qed
    from fold_storeRoleConfig_frame[OF this] r' show ?thesis by simp
  qed
next
  fix role
  assume "role \<in> set (foldedRoles result order)"
  with assms show "\<exists>node1 content1 later artifact ws.
              roleEntries role result order = (node1, content1) # later
            \<and> reconcileRole lib role content1 later = Inr (artifact, ws)
            \<and> result' (kubeletConfigRolePathPrefix @ role) = Some artifact"
    by (rule saveConsistentKubeletResult_role_artifact)
qed

text \<open>On the three worker nodes: the node-level entries stay, and the role-level entry
  is the artifact, A without \<^verbatim>\<open>maxPods\<close>. On the node \<^verbatim>\<open>worker\<close> of the role
  \<^verbatim>\<open>role\<close> and a node of the role \<^verbatim>\<open>worker\<close>: the entry at the role-level key of
  \<^verbatim>\<open>worker\<close> is replaced by the artifact of that role.\<close>

theorem saveConsistentKubeletResult_frame_witness:
  "(\<exists>result' warning'.
     saveConsistentKubeletResult exampleDocuments
       [''/kubeletconfig/worker/node-1'', ''/kubeletconfig/worker/node-2'',
        ''/kubeletconfig/worker/node-3''] exampleNodeConfigs [] = Inr (result', warning')
     \<and> result' ''/kubeletconfig/worker/node-1'' = Some exampleConfigA
     \<and> result' ''/kubeletconfig/worker/node-3'' = Some exampleConfigB
     \<and> result' ''/version'' = None
     \<and> result' ''/kubeletconfig/role/worker'' = Some [(''cgroupDriver'', ''systemd'')])
   \<and> (\<exists>result' warning'.
     saveConsistentKubeletResult exampleJsonlib
       [''/kubeletconfig/role/worker'', ''/kubeletconfig/worker/node-1''] exampleCollision [] =
       Inr (result', warning')
     \<and> exampleCollision ''/kubeletconfig/role/worker'' = Some ''{maxPods: 250}''
     \<and> result' ''/kubeletconfig/role/worker'' = Some ''{maxPods: 110}''
     \<and> result' ''/kubeletconfig/worker/node-1'' = Some ''{maxPods: 110}'')"
proof -
  let ?order = "[''/kubeletconfig/worker/node-1'', ''/kubeletconfig/worker/node-2'',
      ''/kubeletconfig/worker/node-3'']"
  obtain result' warning' where run:
    "saveConsistentKubeletResult exampleDocuments ?order exampleNodeConfigs [] = Inr (result', warning')"
    by (simp add: saveConsistentKubeletResult_def example_roles example_defs)
  have roles: "foldedRoles exampleNodeConfigs ?order = [''worker'']"
    by (simp add: foldedRoles_def example_roles exampleNodeConfigs_def)
  have entries: "roleEntries ''worker'' exampleNodeConfigs ?order =
      (''node-1'', exampleConfigA) # [(''node-2'', exampleConfigA), (''node-3'', exampleConfigB)]"
    by (simp add: roleEntries_Cons example_roles exampleNodeConfigs_def)
  have rec: "reconcileRole exampleDocuments ''worker'' exampleConfigA
      [(''node-2'', exampleConfigA), (''node-3'', exampleConfigB)] =
      Inr ([(''cgroupDriver'', ''systemd'')],
           [inconsistentWarning ''node-3'' ''worker'' ''maxPods''])"
    by (simp add: example_defs)
  note fr = saveConsistentKubeletResult_frame[OF run, unfolded roles]
  from fr have "result' ''/kubeletconfig/worker/node-1'' = exampleNodeConfigs ''/kubeletconfig/worker/node-1''"
    and "result' ''/kubeletconfig/worker/node-3'' = exampleNodeConfigs ''/kubeletconfig/worker/node-3''"
    and "result' ''/version'' = exampleNodeConfigs ''/version''"
    by (simp_all add: kubeletConfigRolePathPrefix_def)
  moreover from fr entries rec
  have "result' (kubeletConfigRolePathPrefix @ ''worker'') = Some [(''cgroupDriver'', ''systemd'')]"
    by auto
  ultimately have 1: "\<exists>result' warning'.
     saveConsistentKubeletResult exampleDocuments ?order exampleNodeConfigs [] = Inr (result', warning')
     \<and> result' ''/kubeletconfig/worker/node-1'' = Some exampleConfigA
     \<and> result' ''/kubeletconfig/worker/node-3'' = Some exampleConfigB
     \<and> result' ''/version'' = None
     \<and> result' ''/kubeletconfig/role/worker'' = Some [(''cgroupDriver'', ''systemd'')]"
    using run by (simp add: exampleNodeConfigs_def kubeletConfigRolePathPrefix_def)
  let ?corder = "[''/kubeletconfig/role/worker'', ''/kubeletconfig/worker/node-1'']"
  obtain cresult cwarning where crun:
    "saveConsistentKubeletResult exampleJsonlib ?corder exampleCollision [] = Inr (cresult, cwarning)"
    by (simp add: saveConsistentKubeletResult_def example_roles example_defs)
  have croles: "foldedRoles exampleCollision ?corder = [''role'', ''worker'']"
    by (simp add: foldedRoles_def example_roles exampleCollision_def)
  have centries: "roleEntries ''worker'' exampleCollision ?corder = [(''node-1'', ''{maxPods: 110}'')]"
    by (simp add: roleEntries_Cons example_roles exampleCollision_def)
  note cfr = saveConsistentKubeletResult_frame[OF crun, unfolded croles]
  from cfr centries
  have "cresult (kubeletConfigRolePathPrefix @ ''worker'') = Some ''{maxPods: 110}''"
    by auto
  moreover from cfr
  have "cresult ''/kubeletconfig/worker/node-1'' = exampleCollision ''/kubeletconfig/worker/node-1''"
    by (simp add: example_roles)
  ultimately have 2: "\<exists>result' warning'.
     saveConsistentKubeletResult exampleJsonlib ?corder exampleCollision [] = Inr (result', warning')
     \<and> exampleCollision ''/kubeletconfig/role/worker'' = Some ''{maxPods: 250}''
     \<and> result' ''/kubeletconfig/role/worker'' = Some ''{maxPods: 110}''
     \<and> result' ''/kubeletconfig/worker/node-1'' = Some ''{maxPods: 110}''"
    using crun by (simp add: exampleCollision_def kubeletConfigRolePathPrefix_def)
  from 1 2 show ?thesis by blast
qed


subsection \<open>Discovery\<close>














lemma fold_overrideStep:
  "distinct ks \<Longrightarrow>
   fold (overrideStep overrides) ks valuesList k =
     (if k \<in> set ks then overrideValues (Some overrides) valuesList k else valuesList k)"
proof (induction ks arbitrary: valuesList)
  case Nil
  then show ?case by simp
next
  case (Cons a ks)
  then show ?case
    by (auto simp: overrideStep_def overrideValues_def split: option.splits)
qed

lemma overrideLoop_any_order:
  assumes "distinct order" and "set order = dom overrides"
  shows "overrideLoop overrides order valuesList = overrideValues (Some overrides) valuesList"
proof
  fix k
  show "overrideLoop overrides order valuesList k = overrideValues (Some overrides) valuesList k"
  proof (cases "k \<in> set order")
    case True
    with assms(1) show ?thesis by (simp add: overrideLoop_def fold_overrideStep)
  next
    case False
    with assms(2) have "overrides k = None" by auto
    with False assms(1) show ?thesis
      by (simp add: overrideLoop_def fold_overrideStep overrideValues_def)
  qed
qed

lemma found_append:
  "(if roleOrder \<noteq> [] then mustFetch @ getKubeletConfigResourcePath roleOrder roleNodesList
    else mustFetch) = mustFetch @ getKubeletConfigResourcePath roleOrder roleNodesList"
  by (simp add: getKubeletConfigResourcePath_def)

lemma FigureResources_tailored:
  assumes "fetchNodesWithRole lib listing = Inr roleNodesList" and "tailoring c = Some tailored"
  shows "FigureResources lib roleOrder listing c profile =
     Inr (c\<lparr>resources :=
       mustFetch @ getKubeletConfigResourcePath roleOrder roleNodesList @
       fst (getResourcePaths lib tailored (dataStream c) profile None) @
       (if getExtendedProfileFromTailoring tailored profile = '''' then []
        else fst (getResourcePaths lib (dataStream c) (dataStream c)
                    (getExtendedProfileFromTailoring tailored profile)
                    (Some (snd (getResourcePaths lib tailored (dataStream c) profile None)))))\<rparr>)"
  unfolding FigureResources_def assms sum.case option.case Let_def found_append
  by (simp split: prod.splits)

lemma FigureResources_plain:
  assumes "fetchNodesWithRole lib listing = Inr roleNodesList" and "tailoring c = None"
  shows "FigureResources lib roleOrder listing c profile =
     Inr (c\<lparr>resources :=
       mustFetch @ getKubeletConfigResourcePath roleOrder roleNodesList @
       fst (getResourcePaths lib (dataStream c) (dataStream c) profile None)\<rparr>)"
  unfolding FigureResources_def assms sum.case option.case Let_def found_append
  by (simp split: prod.splits)

lemma FigureResources_shape_all:
  assumes "fetchNodesWithRole lib listing = Inr roleNodesList"
  shows "\<exists>selected. \<forall>roleOrder. FigureResources lib roleOrder listing c profile =
           Inr (c\<lparr>resources := mustFetch @ getKubeletConfigResourcePath roleOrder roleNodesList @ selected\<rparr>)"
proof (cases "tailoring c")
  case None
  from FigureResources_plain[OF assms None] show ?thesis by blast
next
  case (Some tailored)
  from FigureResources_tailored[OF assms Some] show ?thesis by blast
qed

lemma mset_concat_map_cong:
  "mset xs = mset ys \<Longrightarrow> mset (concat (map f xs)) = mset (concat (map f ys))"
proof -
  assume a: "mset xs = mset ys"
  have "mset (concat (map f zs)) = (\<Sum>z\<in>#mset zs. mset (f z))" for zs
    by (induction zs) auto
  with a show ?thesis by simp
qed

lemmas discovery_eval =
  getResourcePaths_def collectValues_def selectElements_def registerValue_def registerSetValue_def
  overrideValues_def selectedChecks_def checkPaths_def getPathFromWarningXML_def
  getExtendedProfileFromTailoring_def valuePrefix_def Let_def

lemma example_roleNodesList:
  "fetchNodesWithRole exampleLib (Inr exampleNodes) =
     Inr [''master'' \<mapsto> [''m1''], ''worker'' \<mapsto> [''w1'']]"
  by (simp add: fetchNodesWithRole_def addNodeRoles_def exampleLib_def exampleNodes_def)

lemma example_kubelet_paths:
  "getKubeletConfigResourcePath [''master'', ''worker''] [''master'' \<mapsto> [''m1''], ''worker'' \<mapsto> [''w1'']] =
     [kubeletConfigResourcePath ''master'' ''m1'', kubeletConfigResourcePath ''worker'' ''w1'']"
  "getKubeletConfigResourcePath [''worker'', ''master''] [''master'' \<mapsto> [''m1''], ''worker'' \<mapsto> [''w1'']] =
     [kubeletConfigResourcePath ''worker'' ''w1'', kubeletConfigResourcePath ''master'' ''m1'']"
  by (simp_all add: getKubeletConfigResourcePath_def)

lemma example_tables:
  "snd (getResourcePaths exampleLib exampleBenchmark exampleBenchmark p None) ''A'' = Some ''1''"
  "snd (getResourcePaths exampleLib exampleBenchmark exampleBenchmark p None) ''B'' = None"
  by (simp_all add: discovery_eval exampleLib_def exampleBenchmark_def)

lemma example_tailored:
  "fst (getResourcePaths exampleLib exampleTailoring exampleBenchmark ''T'' None) = []"
  "selectedChecks exampleTailoring ''T'' = []"
  "getExtendedProfileFromTailoring exampleTailoring ''T'' = ''P''"
  "getExtendedProfileFromTailoring exampleTailoring ''X'' = ''''"
  "fst (getResourcePaths exampleLib exampleTailoring exampleBenchmark ''X'' None) = []"
  by (simp_all add: discovery_eval exampleLib_def exampleBenchmark_def exampleTailoring_def)

lemma example_tailored_table:
  "snd (getResourcePaths exampleLib exampleTailoring exampleBenchmark ''T'' None) ''A'' = Some ''2''"
  "snd (getResourcePaths exampleLib exampleTailoring exampleBenchmark ''T'' None) ''B'' = Some ''3''"
  by (simp_all add: discovery_eval exampleLib_def exampleBenchmark_def exampleTailoring_def)

lemma example_extended_any:
  "ov ''A'' = Some ''2'' \<Longrightarrow>
   fst (getResourcePaths exampleLib exampleBenchmark exampleBenchmark ''P'' (Some ov)) =
     [samePath ''/api/v1/2'']"
  by (simp add: discovery_eval exampleLib_def exampleBenchmark_def)

lemma example_extended:
  "fst (getResourcePaths exampleLib exampleBenchmark exampleBenchmark ''P''
     (Some (snd (getResourcePaths exampleLib exampleTailoring exampleBenchmark ''T'' None)))) =
     [samePath ''/api/v1/2'']"
  using example_tailored_table(1)
    example_extended_any
      [of "snd (getResourcePaths exampleLib exampleTailoring exampleBenchmark ''T'' None)"]
  by simp

lemma example_orders:
  "distinct [''master'', ''worker'']" "distinct [''worker'', ''master'']"
  "set [''master'', ''worker''] = dom [''master'' \<mapsto> [''m1''], ''worker'' \<mapsto> [''w1'']]"
  "set [''worker'', ''master''] = dom [''master'' \<mapsto> [''m1''], ''worker'' \<mapsto> [''w1'']]"
  by auto




text \<open>
  Claim C5. The table that \<^verbatim>\<open>getResourcePaths\<close> returns when it is given overrides
  is the table it returns without them, with the value of each id that the table
  already has replaced by its override, when there is one. An id of the overrides
  that is not in the table is not added: both tables have the same ids. The loop
  over the overrides computes this update in whatever order it visits them, and leaves
  the ids of the table as they are.
\<close>

theorem getResourcePaths_override_existing_only:
  "snd (getResourcePaths lib profileDefs ruleDefs profile (Some overrides)) k =
     (case snd (getResourcePaths lib profileDefs ruleDefs profile None) k of
        None \<Rightarrow> None
      | Some v \<Rightarrow> (case overrides k of None \<Rightarrow> Some v | Some v' \<Rightarrow> Some v'))
   \<and> dom (snd (getResourcePaths lib profileDefs ruleDefs profile (Some overrides))) =
       dom (snd (getResourcePaths lib profileDefs ruleDefs profile None))
   \<and> (distinct order \<and> set order = dom overrides \<longrightarrow>
        overrideLoop overrides order valuesList = overrideValues (Some overrides) valuesList
        \<and> dom (overrideLoop overrides order valuesList) = dom valuesList)"
proof -
  have "dom (overrideValues (Some overrides) valuesList) = dom valuesList"
    by (auto simp: overrideValues_def split: option.splits if_splits)
  then show ?thesis
    using overrideLoop_any_order[of order overrides valuesList]
    by (auto simp: getResourcePaths_def Let_def overrideValues_def split: option.splits if_splits)
qed

text \<open>The example of the claim: the table of the benchmark is \<open>{A:1}\<close>, the overrides
  are \<open>{A:2, B:3}\<close>; in the loop, B is visited before A.\<close>

theorem getResourcePaths_override_existing_only_witness:
  "snd (getResourcePaths exampleLib exampleBenchmark exampleBenchmark ''P'' None) ''A'' = Some ''1''
   \<and> snd (getResourcePaths exampleLib exampleBenchmark exampleBenchmark ''P'' None) ''B'' = None
   \<and> snd (getResourcePaths exampleLib exampleBenchmark exampleBenchmark ''P''
            (Some [''A'' \<mapsto> ''2'', ''B'' \<mapsto> ''3''])) ''A'' = Some ''2''
   \<and> snd (getResourcePaths exampleLib exampleBenchmark exampleBenchmark ''P''
            (Some [''A'' \<mapsto> ''2'', ''B'' \<mapsto> ''3''])) ''B'' = None
   \<and> overrideLoop [''A'' \<mapsto> ''2'', ''B'' \<mapsto> ''3''] [''B'', ''A''] [''A'' \<mapsto> ''1''] =
       overrideValues (Some [''A'' \<mapsto> ''2'', ''B'' \<mapsto> ''3'']) [''A'' \<mapsto> ''1'']
   \<and> dom (overrideLoop [''A'' \<mapsto> ''2'', ''B'' \<mapsto> ''3''] [''B'', ''A''] [''A'' \<mapsto> ''1'']) = {''A''}"
proof -
  have o: "distinct [''B'', ''A''] \<and> set [''B'', ''A''] = dom [''A'' \<mapsto> ''2'', ''B'' \<mapsto> ''3'']"
    by auto
  from getResourcePaths_override_existing_only[of exampleLib exampleBenchmark exampleBenchmark "''P''" "[''A'' \<mapsto> ''2'', ''B'' \<mapsto> ''3'']" "''A''"
      "[''B'', ''A'']" "[''A'' \<mapsto> ''1'']"]
    getResourcePaths_override_existing_only[of exampleLib exampleBenchmark exampleBenchmark "''P''" "[''A'' \<mapsto> ''2'', ''B'' \<mapsto> ''3'']" "''B''"
      "[''B'', ''A'']" "[''A'' \<mapsto> ''1'']"] o
  show ?thesis
    by (simp add: example_tables)
qed

text \<open>
  Claim C6. With a tailoring, the paths of the selected checks of the tailoring profile
  follow the fixed and the kubelet-config paths. When the tailoring profile extends no
  profile, that is the result. When it extends the profile P, the paths of P in the
  benchmark follow, resolved with the table of the tailoring pass as overrides, and
  nothing more (the profile that P may extend is not looked at). A tailoring profile
  without selected checks of its own gives the paths of P alone; these are the paths of
  the selected checks of P in the benchmark, under the benchmark table overridden by
  the table of the tailoring pass.
\<close>

theorem FigureResources_tailoring_one_hop:
  assumes "fetchNodesWithRole lib listing = Inr roleNodesList" and "tailoring c = Some tailored"
  shows "(getExtendedProfileFromTailoring tailored profile = '''' \<longrightarrow>
            FigureResources lib roleOrder listing c profile =
              Inr (c\<lparr>resources :=
                mustFetch @ getKubeletConfigResourcePath roleOrder roleNodesList @
                fst (getResourcePaths lib tailored (dataStream c) profile None)\<rparr>))
       \<and> (getExtendedProfileFromTailoring tailored profile \<noteq> '''' \<longrightarrow>
            FigureResources lib roleOrder listing c profile =
              Inr (c\<lparr>resources :=
                mustFetch @ getKubeletConfigResourcePath roleOrder roleNodesList @
                fst (getResourcePaths lib tailored (dataStream c) profile None) @
                fst (getResourcePaths lib (dataStream c) (dataStream c)
                       (getExtendedProfileFromTailoring tailored profile)
                       (Some (snd (getResourcePaths lib tailored (dataStream c) profile None))))\<rparr>))
       \<and> (getExtendedProfileFromTailoring tailored profile \<noteq> '''' \<and>
          selectedChecks tailored profile = [] \<longrightarrow>
            FigureResources lib roleOrder listing c profile =
              Inr (c\<lparr>resources :=
                mustFetch @ getKubeletConfigResourcePath roleOrder roleNodesList @
                fst (getResourcePaths lib (dataStream c) (dataStream c)
                       (getExtendedProfileFromTailoring tailored profile)
                       (Some (snd (getResourcePaths lib tailored (dataStream c) profile None))))\<rparr>))
       \<and> fst (getResourcePaths lib ds ds extended (Some valuesList)) =
           (if selectElements ds ''xccdf-1.2:Rule'' = [] then []
            else concat (map
                   (checkPaths lib
                      (overrideValues (Some valuesList)
                         (collectValues lib ds (collectValues lib ds Map.empty)))
                      (selectElements ds ''xccdf-1.2:Rule''))
                   (selectedChecks ds extended)))"
proof -
  have paths: "fst (getResourcePaths lib ds ds extended (Some valuesList)) =
           (if selectElements ds ''xccdf-1.2:Rule'' = [] then []
            else concat (map
                   (checkPaths lib
                      (overrideValues (Some valuesList)
                         (collectValues lib ds (collectValues lib ds Map.empty)))
                      (selectElements ds ''xccdf-1.2:Rule''))
                   (selectedChecks ds extended)))"
    by (simp add: getResourcePaths_def Let_def)
  have none: "selectedChecks tailored profile = [] \<Longrightarrow>
      fst (getResourcePaths lib tailored (dataStream c) profile None) = []"
    by (simp add: getResourcePaths_def Let_def)
  show ?thesis
    unfolding paths using none FigureResources_tailored[OF assms, of roleOrder profile]
    by auto
qed

text \<open>The profile T of the example tailoring extends P and selects nothing; no
  profile X is in the tailoring, so nothing is extended.\<close>

theorem FigureResources_tailoring_one_hop_witness:
  "FigureResources exampleLib [''master'', ''worker''] (Inr exampleNodes) exampleContent ''T'' =
     Inr (exampleContent\<lparr>resources :=
            mustFetch @
            [kubeletConfigResourcePath ''master'' ''m1'', kubeletConfigResourcePath ''worker'' ''w1''] @
            [samePath ''/api/v1/2'']\<rparr>)
   \<and> FigureResources exampleLib [''master'', ''worker''] (Inr exampleNodes) exampleContent ''X'' =
     Inr (exampleContent\<lparr>resources :=
            mustFetch @
            [kubeletConfigResourcePath ''master'' ''m1'', kubeletConfigResourcePath ''worker'' ''w1'']\<rparr>)"
proof -
  have t: "tailoring exampleContent = Some exampleTailoring" "dataStream exampleContent = exampleBenchmark"
    by (simp_all add: exampleContent_def)
  note c = FigureResources_tailoring_one_hop[OF example_roleNodesList t(1), unfolded t(2) example_kubelet_paths]
  from c[where profile = "''T''" and roleOrder = "[''master'', ''worker'']"]
  have 1: "FigureResources exampleLib [''master'', ''worker''] (Inr exampleNodes) exampleContent ''T'' =
     Inr (exampleContent\<lparr>resources :=
            mustFetch @
            [kubeletConfigResourcePath ''master'' ''m1'', kubeletConfigResourcePath ''worker'' ''w1''] @
            [samePath ''/api/v1/2'']\<rparr>)"
    by (simp add: example_tailored example_kubelet_paths example_extended)
  from c[where profile = "''X''" and roleOrder = "[''master'', ''worker'']"]
  have 2: "FigureResources exampleLib [''master'', ''worker''] (Inr exampleNodes) exampleContent ''X'' =
     Inr (exampleContent\<lparr>resources :=
            mustFetch @
            [kubeletConfigResourcePath ''master'' ''m1'', kubeletConfigResourcePath ''worker'' ''w1'']\<rparr>)"
    by (simp add: example_tailored example_kubelet_paths)
  from 1 2 show ?thesis by blast
qed

text \<open>Against claim C8 as stated: the same documents and the same nodes, with the two
  orders in which \<^verbatim>\<open>range\<close> may visit the roles master and worker, give two
  different lists.\<close>

theorem FigureResources_role_order_counterexample:
  "map_sum id resources
     (FigureResources exampleLib [''master'', ''worker''] (Inr exampleNodes) exampleContent ''T'') =
     Inr (mustFetch @
          [kubeletConfigResourcePath ''master'' ''m1'', kubeletConfigResourcePath ''worker'' ''w1'',
           samePath ''/api/v1/2''])
   \<and> map_sum id resources
     (FigureResources exampleLib [''worker'', ''master''] (Inr exampleNodes) exampleContent ''T'') =
     Inr (mustFetch @
          [kubeletConfigResourcePath ''worker'' ''w1'', kubeletConfigResourcePath ''master'' ''m1'',
           samePath ''/api/v1/2''])
   \<and> FigureResources exampleLib [''master'', ''worker''] (Inr exampleNodes) exampleContent ''T'' \<noteq>
     FigureResources exampleLib [''worker'', ''master''] (Inr exampleNodes) exampleContent ''T''"
proof -
  have t: "tailoring exampleContent = Some exampleTailoring" "dataStream exampleContent = exampleBenchmark"
    by (simp_all add: exampleContent_def)
  have fr1: "FigureResources exampleLib [''master'', ''worker''] (Inr exampleNodes) exampleContent ''T'' =
      Inr (exampleContent\<lparr>resources := mustFetch @
          [kubeletConfigResourcePath ''master'' ''m1'', kubeletConfigResourcePath ''worker'' ''w1'',
           samePath ''/api/v1/2'']\<rparr>)"
    using FigureResources_tailored[OF example_roleNodesList t(1), of "[''master'', ''worker'']" "''T''"]
    by (simp add: t(2) example_tailored example_extended example_kubelet_paths)
  have fr2: "FigureResources exampleLib [''worker'', ''master''] (Inr exampleNodes) exampleContent ''T'' =
      Inr (exampleContent\<lparr>resources := mustFetch @
          [kubeletConfigResourcePath ''worker'' ''w1'', kubeletConfigResourcePath ''master'' ''m1'',
           samePath ''/api/v1/2'']\<rparr>)"
    using FigureResources_tailored[OF example_roleNodesList t(1), of "[''worker'', ''master'']" "''T''"]
    by (simp add: t(2) example_tailored example_extended example_kubelet_paths)
  have ne: "kubeletConfigResourcePath ''master'' ''m1'' \<noteq> kubeletConfigResourcePath ''worker'' ''w1''"
    by (simp add: kubeletConfigResourcePath_def)
  show ?thesis
    unfolding fr1 fr2 using ne by (simp add: exampleContent_def)
qed

text \<open>
  Claim C8, as the code has it. Two runs on the same documents, profile and nodes,
  whatever the orders in which they visit the roles: both return the fixed paths, then
  the kubelet-config paths, then the same profile paths in the same order; the
  kubelet-config parts hold the same paths the same number of times, in an order that
  follows the order of the roles. The variable table is the same: the only loop over
  a map in its computation, the loop over the overrides, gives the same table in
  whatever order it visits them.
\<close>

theorem FigureResources_same_up_to_role_order:
  assumes "fetchNodesWithRole lib listing = Inr roleNodesList"
    and "distinct order1" and "set order1 = dom roleNodesList"
    and "distinct order2" and "set order2 = dom roleNodesList"
  shows "(\<exists>selected.
           FigureResources lib order1 listing c profile =
             Inr (c\<lparr>resources :=
                    mustFetch @ getKubeletConfigResourcePath order1 roleNodesList @ selected\<rparr>)
         \<and> FigureResources lib order2 listing c profile =
             Inr (c\<lparr>resources :=
                    mustFetch @ getKubeletConfigResourcePath order2 roleNodesList @ selected\<rparr>))
       \<and> mset (getKubeletConfigResourcePath order1 roleNodesList) =
           mset (getKubeletConfigResourcePath order2 roleNodesList)
       \<and> (distinct keys1 \<and> set keys1 = dom overrides \<and>
          distinct keys2 \<and> set keys2 = dom overrides \<longrightarrow>
            overrideLoop overrides keys1 valuesList = overrideLoop overrides keys2 valuesList)"
proof -
  from assms(2-5) have "mset order1 = mset order2"
    by (simp add: set_eq_iff_mset_eq_distinct[symmetric])
  then have "mset (getKubeletConfigResourcePath order1 roleNodesList) =
             mset (getKubeletConfigResourcePath order2 roleNodesList)"
    unfolding getKubeletConfigResourcePath_def by (rule mset_concat_map_cong)
  moreover have "distinct keys1 \<and> set keys1 = dom overrides \<and>
          distinct keys2 \<and> set keys2 = dom overrides \<longrightarrow>
            overrideLoop overrides keys1 valuesList = overrideLoop overrides keys2 valuesList"
    by (simp add: overrideLoop_any_order)
  ultimately show ?thesis
    using FigureResources_shape_all[OF assms(1), of c profile] by blast
qed

text \<open>The two orders of the roles master and worker, and the two orders of the
  overrides of A and B.\<close>

theorem FigureResources_same_up_to_role_order_witness:
  "(\<exists>selected.
     FigureResources exampleLib [''master'', ''worker''] (Inr exampleNodes) exampleContent ''T'' =
       Inr (exampleContent\<lparr>resources :=
              mustFetch @
              [kubeletConfigResourcePath ''master'' ''m1'',
               kubeletConfigResourcePath ''worker'' ''w1''] @ selected\<rparr>)
   \<and> FigureResources exampleLib [''worker'', ''master''] (Inr exampleNodes) exampleContent ''T'' =
       Inr (exampleContent\<lparr>resources :=
              mustFetch @
              [kubeletConfigResourcePath ''worker'' ''w1'',
               kubeletConfigResourcePath ''master'' ''m1''] @ selected\<rparr>))
   \<and> mset [kubeletConfigResourcePath ''master'' ''m1'', kubeletConfigResourcePath ''worker'' ''w1''] =
       mset [kubeletConfigResourcePath ''worker'' ''w1'', kubeletConfigResourcePath ''master'' ''m1'']
   \<and> overrideLoop [''A'' \<mapsto> ''2'', ''B'' \<mapsto> ''3''] [''A'', ''B''] [''A'' \<mapsto> ''1''] =
       overrideLoop [''A'' \<mapsto> ''2'', ''B'' \<mapsto> ''3''] [''B'', ''A''] [''A'' \<mapsto> ''1'']"
proof -
  have o: "distinct [''A'', ''B''] \<and> set [''A'', ''B''] = dom [''A'' \<mapsto> ''2'', ''B'' \<mapsto> ''3''] \<and>
      distinct [''B'', ''A''] \<and> set [''B'', ''A''] = dom [''A'' \<mapsto> ''2'', ''B'' \<mapsto> ''3'']"
    by auto
  from FigureResources_same_up_to_role_order[OF example_roleNodesList example_orders(1,3,2,4), of exampleContent "''T''"
      "[''A'', ''B'']" "[''A'' \<mapsto> ''2'', ''B'' \<mapsto> ''3'']" "[''B'', ''A'']" "[''A'' \<mapsto> ''1'']"] o
  show ?thesis
    unfolding example_kubelet_paths by blast
qed

end
